theory Spec2Isabelle
  imports Complex_Main "HOL-Library.Log_Nat"
begin

section \<open>Values, exceptions and the object store\<close>

text \<open>
  The two Lambda handlers of the uploader, \<^verbatim>\<open>lambda/presigned-url/lambda_function.py\<close>
  (the planner) and \<^verbatim>\<open>lambda/complete-multipart/lambda_function.py\<close> (the finalizer),
  are embedded as HOL functions. Everything the Python does beyond returning a value is
  explicit: each raise is an \<open>Inl\<close> branch, the calls made on \<^verbatim>\<open>s3_client\<close> are
  recorded in order, and so are the lines given to \<^verbatim>\<open>print\<close>.

  Python floats appear as the rational number they denote (every finite double is a
  rational); the two infinities and NaN, which \<^verbatim>\<open>json.loads\<close> accepts, are separate
  values. Strings are ASCII.
\<close>

datatype pyfloat = Finite rat | Infinity bool | NaN

datatype json =
    JNull
  | JBool bool
  | JInt int
  | JFloat pyfloat
  | JStr string
  | JList "json list"
  | JObj "(string \<times> json) list"

text \<open>Python truthiness (\<^verbatim>\<open>not x\<close>, \<^verbatim>\<open>x and y\<close>) of a value decoded from JSON.\<close>

fun truthy :: "json \<Rightarrow> bool" where
  "truthy JNull = False"
| "truthy (JBool b) = b"
| "truthy (JInt n) = (n \<noteq> 0)"
| "truthy (JFloat (Finite x)) = (x \<noteq> 0)"
| "truthy (JFloat (Infinity s)) = True"
| "truthy (JFloat NaN) = True"
| "truthy (JStr s) = (s \<noteq> [])"
| "truthy (JList xs) = (xs \<noteq> [])"
| "truthy (JObj kvs) = (kvs \<noteq> [])"

text \<open>
  A field read with \<^verbatim>\<open>body.get(name)\<close> that the data model types as a string is a
  \<open>string option\<close>: \<open>None\<close> when the field is missing or null.
\<close>

definition truthy_str :: "string option \<Rightarrow> bool" where
  "truthy_str v = (case v of None \<Rightarrow> False | Some s \<Rightarrow> s \<noteq> [])"

text \<open>
  Exceptions. \<open>ClientError\<close> is botocore's; \<open>BotoCoreError\<close> stands for the other
  errors the client library raises (parameter validation, connection failures), which are
  not subclasses of \<open>ClientError\<close>. The string is what the store or the library reports.
\<close>

datatype py_exception =
    ClientError string
  | BotoCoreError string
  | KeyError string
  | TypeError
  | ValueError string
  | OverflowError
  | ZeroDivisionError
  | AttributeError
  | JSONDecodeError

fun is_ClientError :: "py_exception \<Rightarrow> bool" where
  "is_ClientError (ClientError m) = True"
| "is_ClientError e = False"

text \<open>
  \<^verbatim>\<open>body = json.loads(event.get('body', '{}'))\<close> followed by the \<^verbatim>\<open>body.get\<close> calls
  either raises (the body is not a string, is not JSON, or is JSON but not an object) or
  yields the fields. The event carries that outcome.
\<close>

datatype body_error = NotAString | NotJson | NotAnObject

fun body_exception :: "body_error \<Rightarrow> py_exception" where
  "body_exception NotAString = TypeError"
| "body_exception NotJson = JSONDecodeError"
| "body_exception NotAnObject = AttributeError"

record 'r event =
  httpMethod :: "string option"
  parsed_body :: "body_error + 'r"

record lambda_context =
  aws_request_id :: string

type_synonym environ = "(string \<times> string) list"

datatype body = Text string | JsonDumps json

record response =
  statusCode :: int
  headers :: "(string \<times> string) list"
  body :: body

text \<open>The calls on \<^verbatim>\<open>s3_client\<close>, with their keyword arguments in the source's order.\<close>

datatype presign_params =
    UploadPartParams string string int string
  | PutObjectParams string string string

datatype s3_call =
    CreateMultipartUpload string string string
  | GeneratePresignedUrl string presign_params int
  | CompleteMultipartUpload string string string "(json \<times> json) list"
  | AbortMultipartUpload string string string

text \<open>
  The store is outside the program: what each call returns or raises is a parameter.
  A response is the dictionary boto3 returns, as an association list.
\<close>

record s3_client =
  create_multipart_upload :: "string \<Rightarrow> string \<Rightarrow> string \<Rightarrow> py_exception + (string \<times> string) list"
  generate_presigned_url :: "string \<Rightarrow> presign_params \<Rightarrow> int \<Rightarrow> py_exception + string"
  complete_multipart_upload ::
    "string \<Rightarrow> string \<Rightarrow> string \<Rightarrow> (json \<times> json) list \<Rightarrow> py_exception + (string \<times> string) list"
  abort_multipart_upload :: "string \<Rightarrow> string \<Rightarrow> string \<Rightarrow> py_exception + unit"

text \<open>A line given to \<^verbatim>\<open>print\<close>: plain text, or a prefix followed by an exception.\<close>

datatype log_line = Line string | LineExc string py_exception

text \<open>What one invocation of a handler does: the value returned, the store calls, the log.\<close>

record run =
  returned :: response
  s3_calls :: "s3_call list"
  printed :: "log_line list"

definition cors_headers :: "(string \<times> string) list" where
  "cors_headers =
    [(''Access-Control-Allow-Origin'', ''*''),
     (''Access-Control-Allow-Headers'',
        ''Content-Type,X-Amz-Date,Authorization,X-Api-Key,X-Amz-Security-Token''),
     (''Access-Control-Allow-Methods'', ''GET,POST,OPTIONS'')]"

definition json_response :: "int \<Rightarrow> json \<Rightarrow> response" where
  "json_response status value =
     \<lparr>statusCode = status, headers = cors_headers, body = JsonDumps value\<rparr>"

definition error_response :: "int \<Rightarrow> string \<Rightarrow> response" where
  "error_response status message = json_response status (JObj [(''error'', JStr message)])"

definition options_response :: response where
  "options_response = \<lparr>statusCode = 200, headers = cors_headers, body = Text ''''\<rparr>"

section \<open>Python built-ins used by the planner\<close>

subsection \<open>\<^verbatim>\<open>int(s, 16)\<close>\<close>

text \<open>
  CPython's \<^verbatim>\<open>PyLong_FromString\<close> for base 16 on an ASCII string: leading whitespace, an
  optional sign, an optional \<^verbatim>\<open>0x\<close> prefix (one underscore may follow it), digits with
  single underscores between them, trailing whitespace, end of string.
\<close>

definition py_isspace :: "char \<Rightarrow> bool" where
  "py_isspace c = (let n = (of_char c :: int) in (9 \<le> n \<and> n \<le> 13) \<or> n = 32)"

definition digit_value :: "char \<Rightarrow> int" where
  "digit_value c =
     (let n = (of_char c :: int) in
      if 48 \<le> n \<and> n \<le> 57 then n - 48
      else if 97 \<le> n \<and> n \<le> 122 then n - 87
      else if 65 \<le> n \<and> n \<le> 90 then n - 55
      else 37)"

fun scan_digits :: "int \<Rightarrow> char \<Rightarrow> int \<Rightarrow> string \<Rightarrow> (int \<times> char \<times> string) option" where
  "scan_digits base prev acc [] = Some (acc, prev, [])"
| "scan_digits base prev acc (c # cs) =
     (if c = CHR ''_'' then
        (if prev = CHR ''_'' then None else scan_digits base c acc cs)
      else if digit_value c < base then scan_digits base c (acc * base + digit_value c) cs
      else Some (acc, prev, c # cs))"

definition skip_sign :: "string \<Rightarrow> int \<times> string" where
  "skip_sign s =
     (case s of
        [] \<Rightarrow> (1, s)
      | c # cs \<Rightarrow> if c = CHR ''+'' then (1, cs) else if c = CHR ''-'' then (- 1, cs) else (1, s))"

definition skip_hex_prefix :: "string \<Rightarrow> string" where
  "skip_hex_prefix s =
     (case s of
        c0 # c1 # cs \<Rightarrow>
          if c0 = CHR ''0'' \<and> (c1 = CHR ''x'' \<or> c1 = CHR ''X'')
          then (case cs of [] \<Rightarrow> cs | u # cs' \<Rightarrow> if u = CHR ''_'' then cs' else cs)
          else s
      | _ \<Rightarrow> s)"

definition int_base16 :: "string \<Rightarrow> py_exception + int" where
  "int_base16 s =
     (let (sign, s2) = skip_sign (dropWhile py_isspace s);
          s3 = skip_hex_prefix s2
      in if take 1 s3 = ''_'' then Inl (ValueError s)
         else case scan_digits 16 (CHR 0x00) 0 s3 of
           None \<Rightarrow> Inl (ValueError s)
         | Some (v, prev, rest) \<Rightarrow>
             if prev = CHR ''_'' \<or> length rest = length s3 then Inl (ValueError s)
             else if dropWhile py_isspace rest \<noteq> [] then Inl (ValueError s)
             else Inr (sign * v))"

subsection \<open>\<^verbatim>\<open>str\<close> of an integer, as an f-string formats it\<close>

fun str_nat :: "nat \<Rightarrow> string" where
  "str_nat n =
     (if n < 10 then [''0123456789'' ! n]
      else str_nat (n div 10) @ [''0123456789'' ! (n mod 10)])"

definition str_int :: "int \<Rightarrow> string" where
  "str_int i = (if i < 0 then CHR ''-'' # str_nat (nat (- i)) else str_nat (nat i))"

subsection \<open>\<^verbatim>\<open>math.ceil(a / b)\<close> on integers\<close>

text \<open>
  \<^verbatim>\<open>a / b\<close> on two Python integers is the double nearest to the exact quotient (ties to
  even), \<^verbatim>\<open>OverflowError\<close> when that is beyond the doubles, and \<^verbatim>\<open>ZeroDivisionError\<close>
  for \<^verbatim>\<open>b == 0\<close>. A double has 53 significant bits and an exponent of at least -1022.
\<close>

definition floor_log2 :: "rat \<Rightarrow> int" where
  "floor_log2 q =
     (let (a, b) = quotient_of q; d = bitlen a - bitlen b
      in if 2 powi d \<le> q then d else d - 1)"

definition round_half_even :: "rat \<Rightarrow> int" where
  "round_half_even x =
     (let f = \<lfloor>x\<rfloor>; r = x - of_int f
      in if r < 1 / 2 then f else if 1 / 2 < r then f + 1 else if even f then f else f + 1)"

definition round_to_double :: "rat \<Rightarrow> rat option" where
  "round_to_double x =
     (if x = 0 then Some 0
      else
        let q = \<bar>x\<bar>;
            e = max (floor_log2 q) (- 1022);
            m = round_half_even (q * 2 powi (52 - e));
            v = of_int m * 2 powi (e - 52)
        in if 2 ^ 1024 \<le> v then None else Some (sgn x * v))"

definition py_truediv :: "int \<Rightarrow> int \<Rightarrow> py_exception + rat" where
  "py_truediv a b =
     (if b = 0 then Inl ZeroDivisionError
      else case round_to_double (of_int a / of_int b) of
        None \<Rightarrow> Inl OverflowError
      | Some v \<Rightarrow> Inr v)"

definition math_ceil :: "rat \<Rightarrow> int" where
  "math_ceil x = \<lceil>x\<rceil>"

section \<open>The planner: \<^verbatim>\<open>lambda/presigned-url/lambda_function.py\<close>\<close>

text \<open>
  The fields the handler reads from the request body. The data model types \<open>fileName\<close>
  and \<open>fileType\<close> as strings and \<open>fileSize\<close> as an integer; \<open>None\<close> is a field that
  is missing or null.
\<close>

record upload_request =
  body_fileName :: "string option"
  body_fileType :: "string option"
  body_fileSize :: "int option"

definition part_size :: int where
  "part_size = 10 * 1024 * 1024"

text \<open>\<^verbatim>\<open>is_large_file = file_size and file_size > 100 * 1024 * 1024\<close>, taken as a condition.\<close>

definition is_large_file :: "int option \<Rightarrow> bool" where
  "is_large_file file_size =
     (case file_size of None \<Rightarrow> False | Some n \<Rightarrow> n \<noteq> 0 \<and> n > 100 * 1024 * 1024)"

text \<open>\<^verbatim>\<open>key = f"uploads/{int(context.aws_request_id[:8], 16)}-{file_name}"\<close>\<close>

definition object_key :: "lambda_context \<Rightarrow> string \<Rightarrow> py_exception + string" where
  "object_key ctx file_name =
     (case int_base16 (take 8 (aws_request_id ctx)) of
        Inl e \<Rightarrow> Inl e
      | Inr n \<Rightarrow> Inr (''uploads/'' @ str_int n @ ''-'' @ file_name))"

text \<open>
  The loop \<^verbatim>\<open>for part_number in range(1, num_parts + 1)\<close>: one presigned URL per part,
  appended in order; an exception from the client leaves the loop.
\<close>

fun presign_parts ::
  "s3_client \<Rightarrow> string \<Rightarrow> string \<Rightarrow> string \<Rightarrow> int list \<Rightarrow> json list \<Rightarrow> s3_call list
     \<Rightarrow> (py_exception + json list) \<times> s3_call list" where
  "presign_parts s3 bucket_name key upload_id [] presigned_urls calls =
     (Inr presigned_urls, calls)"
| "presign_parts s3 bucket_name key upload_id (part_number # rest) presigned_urls calls =
     (let params = UploadPartParams bucket_name key part_number upload_id;
          calls' = calls @ [GeneratePresignedUrl ''upload_part'' params 3600]
      in case generate_presigned_url s3 ''upload_part'' params 3600 of
           Inl e \<Rightarrow> (Inl e, calls')
         | Inr presigned_url \<Rightarrow>
             presign_parts s3 bucket_name key upload_id rest
               (presigned_urls @
                  [JObj [(''partNumber'', JInt part_number), (''presignedUrl'', JStr presigned_url)]])
               calls')"

text \<open>
  The multipart branch. \<^verbatim>\<open>file_size / part_size\<close> raises \<open>TypeError\<close> on \<open>None\<close>; the
  branch is entered only with an integer.
\<close>

definition multipart_upload ::
  "s3_client \<Rightarrow> string \<Rightarrow> string \<Rightarrow> string \<Rightarrow> int option
     \<Rightarrow> (py_exception + response) \<times> s3_call list" where
  "multipart_upload s3 bucket_name key file_type file_size =
     (let calls = [CreateMultipartUpload bucket_name key file_type] in
      case create_multipart_upload s3 bucket_name key file_type of
        Inl e \<Rightarrow> (Inl e, calls)
      | Inr resp \<Rightarrow>
          (case map_of resp ''UploadId'' of
             None \<Rightarrow> (Inl (KeyError ''UploadId''), calls)
           | Some upload_id \<Rightarrow>
               (case (case file_size of
                        None \<Rightarrow> Inl TypeError
                      | Some n \<Rightarrow> py_truediv n part_size) of
                  Inl e \<Rightarrow> (Inl e, calls)
                | Inr ratio \<Rightarrow>
                    (let num_parts = math_ceil ratio in
                     case presign_parts s3 bucket_name key upload_id [1..num_parts] [] calls of
                       (Inl e, calls') \<Rightarrow> (Inl e, calls')
                     | (Inr presigned_urls, calls') \<Rightarrow>
                         (Inr (json_response 200
                            (JObj [(''uploadType'', JStr ''multipart''),
                                   (''uploadId'', JStr upload_id),
                                   (''key'', JStr key),
                                   (''presignedUrls'', JList presigned_urls),
                                   (''partSize'', JInt part_size)])),
                          calls')))))"

definition single_upload ::
  "s3_client \<Rightarrow> string \<Rightarrow> string \<Rightarrow> string \<Rightarrow> (py_exception + response) \<times> s3_call list" where
  "single_upload s3 bucket_name key file_type =
     (let params = PutObjectParams bucket_name key file_type;
          calls = [GeneratePresignedUrl ''put_object'' params 3600]
      in case generate_presigned_url s3 ''put_object'' params 3600 of
           Inl e \<Rightarrow> (Inl e, calls)
         | Inr presigned_url \<Rightarrow>
             (Inr (json_response 200
                (JObj [(''uploadType'', JStr ''single''),
                       (''presignedUrl'', JStr presigned_url),
                       (''key'', JStr key)])),
              calls))"

text \<open>
  The body of the \<^verbatim>\<open>try\<close> block: a response, or the exception that left the block,
  with the store calls made so far. After the test \<^verbatim>\<open>not file_name or not file_type\<close>
  both fields are non-empty strings, which the \<open>case\<close> binds.
\<close>

definition presigned_url_try ::
  "s3_client \<Rightarrow> environ \<Rightarrow> upload_request event \<Rightarrow> lambda_context
     \<Rightarrow> (py_exception + response) \<times> s3_call list" where
  "presigned_url_try s3 env ev ctx =
     (case parsed_body ev of
        Inl err \<Rightarrow> (Inl (body_exception err), [])
      | Inr req \<Rightarrow>
          if \<not> truthy_str (body_fileName req) \<or> \<not> truthy_str (body_fileType req)
          then (Inr (error_response 400 ''fileName and fileType are required''), [])
          else
            (case (body_fileName req, body_fileType req) of
               (Some file_name, Some file_type) \<Rightarrow>
                 (case map_of env ''UPLOAD_BUCKET_NAME'' of
                    None \<Rightarrow> (Inl (KeyError ''UPLOAD_BUCKET_NAME''), [])
                  | Some bucket_name \<Rightarrow>
                      (case object_key ctx file_name of
                         Inl e \<Rightarrow> (Inl e, [])
                       | Inr key \<Rightarrow>
                           if is_large_file (body_fileSize req)
                           then multipart_upload s3 bucket_name key file_type (body_fileSize req)
                           else single_upload s3 bucket_name key file_type))
             | _ \<Rightarrow> (Inr (error_response 400 ''fileName and fileType are required''), [])))"

text \<open>
  The handler: the preflight shortcut, the \<^verbatim>\<open>try\<close> block, and the two \<^verbatim>\<open>except\<close>
  clauses in the source's order (\<open>ClientError\<close> first, then any \<open>Exception\<close>).
\<close>

definition presigned_url_lambda_handler ::
  "s3_client \<Rightarrow> environ \<Rightarrow> upload_request event \<Rightarrow> lambda_context \<Rightarrow> run" where
  "presigned_url_lambda_handler s3 env ev ctx =
     (if httpMethod ev = Some ''OPTIONS''
      then \<lparr>returned = options_response, s3_calls = [], printed = []\<rparr>
      else case presigned_url_try s3 env ev ctx of
        (Inr resp, calls) \<Rightarrow> \<lparr>returned = resp, s3_calls = calls, printed = []\<rparr>
      | (Inl e, calls) \<Rightarrow>
          if is_ClientError e
          then \<lparr>returned = error_response 500 ''AWS service error'',
                s3_calls = calls,
                printed = [LineExc ''AWS error: '' e]\<rparr>
          else \<lparr>returned = error_response 500 ''Failed to generate presigned URL'',
                s3_calls = calls,
                printed = [LineExc ''Error generating presigned URL: '' e]\<rparr>)"

section \<open>The finalizer: \<^verbatim>\<open>lambda/complete-multipart/lambda_function.py\<close>\<close>

text \<open>
  \<open>uploadId\<close> and \<open>key\<close> are strings; \<open>parts\<close> is whatever JSON value the caller
  sent, since the handler itself tests that it is a list.
\<close>

record complete_request =
  body_uploadId :: "string option"
  body_key :: "string option"
  body_parts :: "json option"

definition truthy_opt :: "json option \<Rightarrow> bool" where
  "truthy_opt v = (case v of None \<Rightarrow> False | Some x \<Rightarrow> truthy x)"

definition isinstance_list :: "json option \<Rightarrow> bool" where
  "isinstance_list v = (case v of Some (JList xs) \<Rightarrow> True | _ \<Rightarrow> False)"

text \<open>
  \<^verbatim>\<open>part[name]\<close>: \<open>KeyError\<close> on a dictionary without the key, \<open>TypeError\<close> on any
  other JSON value.
\<close>

definition subscript :: "json \<Rightarrow> string \<Rightarrow> py_exception + json" where
  "subscript part name =
     (case part of
        JObj kvs \<Rightarrow> (case map_of kvs name of None \<Rightarrow> Inl (KeyError name) | Some v \<Rightarrow> Inr v)
      | _ \<Rightarrow> Inl TypeError)"

text \<open>The loop \<^verbatim>\<open>for part in parts\<close>; a pair stands for \<^verbatim>\<open>{'ETag': .., 'PartNumber': ..}\<close>.\<close>

fun format_parts :: "json list \<Rightarrow> (json \<times> json) list \<Rightarrow> py_exception + (json \<times> json) list" where
  "format_parts [] multipart_upload_parts = Inr multipart_upload_parts"
| "format_parts (part # rest) multipart_upload_parts =
     (case subscript part ''ETag'' of
        Inl e \<Rightarrow> Inl e
      | Inr etag \<Rightarrow>
          (case subscript part ''PartNumber'' of
             Inl e \<Rightarrow> Inl e
           | Inr part_number \<Rightarrow>
               format_parts rest (multipart_upload_parts @ [(etag, part_number)])))"

text \<open>\<^verbatim>\<open>response.get(name, default)\<close>\<close>

definition get_default :: "(string \<times> string) list \<Rightarrow> string \<Rightarrow> string \<Rightarrow> string" where
  "get_default resp name dflt = (case map_of resp name of None \<Rightarrow> dflt | Some v \<Rightarrow> v)"

text \<open>
  The inner \<^verbatim>\<open>try\<close> of the \<open>ClientError\<close> clause: the abort, guarded by
  \<^verbatim>\<open>if upload_id and key\<close>, with whatever it raises caught and printed.
\<close>

definition abort_on_error ::
  "s3_client \<Rightarrow> string \<Rightarrow> string \<Rightarrow> string \<Rightarrow> s3_call list \<times> log_line list" where
  "abort_on_error s3 bucket_name upload_id key =
     (if upload_id \<noteq> [] \<and> key \<noteq> [] then
        (case abort_multipart_upload s3 bucket_name key upload_id of
           Inl abort_error \<Rightarrow>
             ([AbortMultipartUpload bucket_name key upload_id],
              [LineExc ''Error aborting multipart upload: '' abort_error])
         | Inr u \<Rightarrow>
             ([AbortMultipartUpload bucket_name key upload_id],
              [Line (''Aborted multipart upload '' @ upload_id @ '' for key '' @ key)]))
      else ([], []))"

text \<open>The last clause, \<^verbatim>\<open>except Exception\<close>.\<close>

definition complete_failed :: "py_exception \<Rightarrow> s3_call list \<Rightarrow> run" where
  "complete_failed e calls =
     \<lparr>returned = error_response 500 ''Failed to complete multipart upload'',
      s3_calls = calls,
      printed = [LineExc ''Error completing multipart upload: '' e]\<rparr>"

text \<open>
  The handler. Of the statements of the \<^verbatim>\<open>try\<close> block only the store call can raise a
  \<open>ClientError\<close>, so the \<open>ClientError\<close> clause runs with \<open>bucket_name\<close>, \<open>upload_id\<close>
  and \<open>key\<close> bound; every other exception goes to the last clause.
\<close>

definition complete_multipart_lambda_handler ::
  "s3_client \<Rightarrow> environ \<Rightarrow> complete_request event \<Rightarrow> lambda_context \<Rightarrow> run" where
  "complete_multipart_lambda_handler s3 env ev ctx =
     (if httpMethod ev = Some ''OPTIONS''
      then \<lparr>returned = options_response, s3_calls = [], printed = []\<rparr>
      else case parsed_body ev of
        Inl err \<Rightarrow> complete_failed (body_exception err) []
      | Inr req \<Rightarrow>
          if \<not> truthy_str (body_uploadId req) \<or> \<not> truthy_str (body_key req)
             \<or> \<not> truthy_opt (body_parts req) \<or> \<not> isinstance_list (body_parts req)
          then \<lparr>returned = error_response 400 ''uploadId, key, and parts array are required'',
                s3_calls = [], printed = []\<rparr>
          else
            (case (body_uploadId req, body_key req, body_parts req) of
               (Some upload_id, Some key, Some (JList parts)) \<Rightarrow>
                 (case map_of env ''UPLOAD_BUCKET_NAME'' of
                    None \<Rightarrow> complete_failed (KeyError ''UPLOAD_BUCKET_NAME'') []
                  | Some bucket_name \<Rightarrow>
                      (case format_parts parts [] of
                         Inl e \<Rightarrow> complete_failed e []
                       | Inr multipart_upload_parts \<Rightarrow>
                           (let call = CompleteMultipartUpload bucket_name key upload_id
                                         multipart_upload_parts
                            in case complete_multipart_upload s3 bucket_name key upload_id
                                      multipart_upload_parts of
                                 Inr resp \<Rightarrow>
                                   \<lparr>returned = json_response 200
                                      (JObj [(''success'', JBool True),
                                             (''location'', JStr (get_default resp ''Location'' [])),
                                             (''key'', JStr (get_default resp ''Key'' key)),
                                             (''etag'', JStr (get_default resp ''ETag'' []))]),
                                    s3_calls = [call], printed = []\<rparr>
                               | Inl e \<Rightarrow>
                                   if is_ClientError e then
                                     (let (abort_calls, abort_log) =
                                            abort_on_error s3 bucket_name upload_id key
                                      in \<lparr>returned = error_response 500
                                             ''AWS service error completing multipart upload'',
                                           s3_calls = call # abort_calls,
                                           printed =
                                             LineExc ''AWS error completing multipart upload: '' e
                                               # abort_log\<rparr>)
                                   else complete_failed e [call])))
             | _ \<Rightarrow>
                 \<lparr>returned = error_response 400 ''uploadId, key, and parts array are required'',
                  s3_calls = [], printed = []\<rparr>))"

section \<open>Example invocations\<close>

text \<open>Concrete environments, requests and stores, on which the theorems below are run.\<close>

definition example_env :: environ where
  "example_env = [(''UPLOAD_BUCKET_NAME'', ''upload-bucket'')]"

definition example_context :: lambda_context where
  "example_context = \<lparr>aws_request_id = ''8f3c2a1b-4d5e-4f60-8a7b-1c2d3e4f5a6b''\<rparr>"

definition other_context :: lambda_context where
  "other_context = \<lparr>aws_request_id = ''8f3c2a1b-9e8d-4c7b-a6f5-0e1d2c3b4a59''\<rparr>"

text \<open>A store that accepts every call.\<close>

definition accepting_store :: s3_client where
  "accepting_store =
     \<lparr>create_multipart_upload = (\<lambda>bucket key content_type. Inr [(''UploadId'', ''session-1'')]),
      generate_presigned_url = (\<lambda>client_method params expires_in. Inr ''https://signed.example''),
      complete_multipart_upload =
        (\<lambda>bucket key upload_id parts.
           Inr [(''Location'', ''https://upload-bucket.example/'' @ key),
                (''Key'', key), (''ETag'', ''final-etag'')]),
      abort_multipart_upload = (\<lambda>bucket key upload_id. Inr ())\<rparr>"

text \<open>A store that rejects the completion; the abort succeeds, or fails as well.\<close>

definition rejecting_store :: s3_client where
  "rejecting_store =
     accepting_store
       \<lparr>complete_multipart_upload :=
          (\<lambda>bucket key upload_id parts. Inl (ClientError ''InvalidPart''))\<rparr>"

definition failing_store :: s3_client where
  "failing_store =
     rejecting_store
       \<lparr>abort_multipart_upload := (\<lambda>bucket key upload_id. Inl (ClientError ''AccessDenied''))\<rparr>"

definition upload_event :: "string option \<Rightarrow> string option \<Rightarrow> int option \<Rightarrow> upload_request event" where
  "upload_event file_name file_type file_size =
     \<lparr>httpMethod = Some ''POST'',
      parsed_body =
        Inr \<lparr>body_fileName = file_name, body_fileType = file_type, body_fileSize = file_size\<rparr>\<rparr>"

definition example_part :: "int \<Rightarrow> string \<Rightarrow> json" where
  "example_part part_number etag = JObj [(''ETag'', JStr etag), (''PartNumber'', JInt part_number)]"

definition complete_event :: "string option \<Rightarrow> string option \<Rightarrow> json option \<Rightarrow> complete_request event" where
  "complete_event upload_id key parts =
     \<lparr>httpMethod = Some ''POST'',
      parsed_body = Inr \<lparr>body_uploadId = upload_id, body_key = key, body_parts = parts\<rparr>\<rparr>"

definition example_manifest :: json where
  "example_manifest = JList [example_part 1 ''etag-1'', example_part 2 ''etag-2'']"

section \<open>Which exceptions reach which clause\<close>

text \<open>
  Neither decoding the body, nor reading the environment, nor the reformatting loop, nor
  the key derivation raises a \<open>ClientError\<close>: in both handlers only a store call does.
\<close>

lemma body_exception_not_client: "\<not> is_ClientError (body_exception err)"
  by (cases err) simp_all

lemma subscript_not_client: "subscript part name = Inl e \<Longrightarrow> \<not> is_ClientError e"
  by (auto simp: subscript_def split: json.splits option.splits)

lemma format_parts_not_client: "format_parts parts acc = Inl e \<Longrightarrow> \<not> is_ClientError e"
  by (induction parts arbitrary: acc) (auto split: sum.splits dest: subscript_not_client)

lemma int_base16_raises: "int_base16 s = Inl e \<Longrightarrow> e = ValueError s"
  by (auto simp: int_base16_def Let_def split: prod.splits option.splits if_splits)

lemma object_key_raises: "object_key ctx file_name = Inl e \<Longrightarrow> \<not> is_ClientError e"
  by (auto simp: object_key_def split: sum.splits dest: int_base16_raises)

text \<open>The reformatting loop stops at the first entry it cannot read.\<close>

lemma format_parts_missing_field:
  assumes "part \<in> set parts" and "subscript part ''ETag'' = Inl e1 \<or> subscript part ''PartNumber'' = Inl e2"
  shows "\<exists>e. format_parts parts acc = Inl e"
  using assms
proof (induction parts arbitrary: acc)
  case Nil
  then show ?case by simp
next
  case (Cons p ps)
  show ?case
  proof (cases "subscript p ''ETag''")
    case (Inl a)
    then show ?thesis by simp
  next
    case etag: (Inr a)
    show ?thesis
    proof (cases "subscript p ''PartNumber''")
      case (Inl b)
      with etag show ?thesis by simp
    next
      case (Inr b)
      with etag Cons.prems have "part \<in> set ps" by auto
      from Cons.IH[OF this Cons.prems(2)] etag Inr show ?thesis by simp
    qed
  qed
qed

section \<open>The finalizer\<close>

text \<open>What the finalizer does once the request has passed the validation.\<close>

lemma complete_handler_valid:
  assumes "httpMethod ev \<noteq> Some ''OPTIONS''" "parsed_body ev = Inr req"
    "body_uploadId req = Some upload_id" "upload_id \<noteq> []"
    "body_key req = Some key" "key \<noteq> []"
    "body_parts req = Some (JList parts)" "parts \<noteq> []"
  shows "complete_multipart_lambda_handler s3 env ev ctx =
     (case map_of env ''UPLOAD_BUCKET_NAME'' of
                    None \<Rightarrow> complete_failed (KeyError ''UPLOAD_BUCKET_NAME'') []
                  | Some bucket_name \<Rightarrow>
                      (case format_parts parts [] of
                         Inl e \<Rightarrow> complete_failed e []
                       | Inr multipart_upload_parts \<Rightarrow>
                           (let call = CompleteMultipartUpload bucket_name key upload_id
                                         multipart_upload_parts
                            in case complete_multipart_upload s3 bucket_name key upload_id
                                      multipart_upload_parts of
                                 Inr resp \<Rightarrow>
                                   \<lparr>returned = json_response 200
                                      (JObj [(''success'', JBool True),
                                             (''location'', JStr (get_default resp ''Location'' [])),
                                             (''key'', JStr (get_default resp ''Key'' key)),
                                             (''etag'', JStr (get_default resp ''ETag'' []))]),
                                    s3_calls = [call], printed = []\<rparr>
                               | Inl e \<Rightarrow>
                                   if is_ClientError e then
                                     (let (abort_calls, abort_log) =
                                            abort_on_error s3 bucket_name upload_id key
                                      in \<lparr>returned = error_response 500
                                             ''AWS service error completing multipart upload'',
                                           s3_calls = call # abort_calls,
                                           printed =
                                             LineExc ''AWS error completing multipart upload: '' e
                                               # abort_log\<rparr>)
                                   else complete_failed e [call])))"
  using assms
  by (simp add: complete_multipart_lambda_handler_def truthy_str_def truthy_opt_def isinstance_list_def)

text \<open>
  Claim C6. When the store accepts the completion, the finalizer returns status 200 with
  \<open>success: true\<close> and the location, key and integrity tag the store reported (the key
  defaulting to the request's), and the only store call it has made is the completion:
  no abort.
\<close>

theorem finalize_success:
  assumes "httpMethod ev \<noteq> Some ''OPTIONS''" "parsed_body ev = Inr req"
    "body_uploadId req = Some upload_id" "upload_id \<noteq> []"
    "body_key req = Some key" "key \<noteq> []"
    "body_parts req = Some (JList parts)" "parts \<noteq> []"
    "map_of env ''UPLOAD_BUCKET_NAME'' = Some bucket_name"
    "format_parts parts [] = Inr manifest"
    "complete_multipart_upload s3 bucket_name key upload_id manifest = Inr resp"
  shows "complete_multipart_lambda_handler s3 env ev ctx =
     \<lparr>returned = json_response 200
         (JObj [(''success'', JBool True),
                (''location'', JStr (get_default resp ''Location'' [])),
                (''key'', JStr (get_default resp ''Key'' key)),
                (''etag'', JStr (get_default resp ''ETag'' []))]),
      s3_calls = [CompleteMultipartUpload bucket_name key upload_id manifest],
      printed = []\<rparr>"
  using assms by (simp add: complete_handler_valid)

theorem finalize_success_witness:
  "complete_multipart_lambda_handler accepting_store example_env
     (complete_event (Some ''session-1'') (Some ''uploads/1-a.bin'') (Some example_manifest))
     example_context =
     \<lparr>returned = json_response 200
         (JObj [(''success'', JBool True),
                (''location'', JStr ''https://upload-bucket.example/uploads/1-a.bin''),
                (''key'', JStr ''uploads/1-a.bin''),
                (''etag'', JStr ''final-etag'')]),
      s3_calls = [CompleteMultipartUpload ''upload-bucket'' ''uploads/1-a.bin'' ''session-1''
                    [(JStr ''etag-1'', JInt 1), (JStr ''etag-2'', JInt 2)]],
      printed = []\<rparr>"
  using finalize_success [of "complete_event (Some ''session-1'') (Some ''uploads/1-a.bin'') (Some example_manifest)"
      "\<lparr>body_uploadId = Some ''session-1'', body_key = Some ''uploads/1-a.bin'', body_parts = Some example_manifest\<rparr>"
      "''session-1''" "''uploads/1-a.bin''" "[example_part 1 ''etag-1'', example_part 2 ''etag-2'']"
      example_env "''upload-bucket''" "[(JStr ''etag-1'', JInt 1), (JStr ''etag-2'', JInt 2)]"
      accepting_store
      "[(''Location'', ''https://upload-bucket.example/uploads/1-a.bin''), (''Key'', ''uploads/1-a.bin''), (''ETag'', ''final-etag'')]"
      example_context]
  by (simp add: complete_event_def example_manifest_def example_env_def example_part_def
      subscript_def accepting_store_def get_default_def)

text \<open>
  Claim C3. When the store rejects the completion (the completion call raises a
  \<open>ClientError\<close>), the store calls are, in this order, the completion and then one abort
  of the same session; the handler has the abort's outcome in hand before it returns (the
  line it prints says which); and when the abort succeeds the response is the store error,
  status 500 \<open>AWS service error completing multipart upload\<close>.
\<close>

theorem finalize_rollback:
  assumes "httpMethod ev \<noteq> Some ''OPTIONS''" "parsed_body ev = Inr req"
    "body_uploadId req = Some upload_id" "upload_id \<noteq> []"
    "body_key req = Some key" "key \<noteq> []"
    "body_parts req = Some (JList parts)" "parts \<noteq> []"
    "map_of env ''UPLOAD_BUCKET_NAME'' = Some bucket_name"
    "format_parts parts [] = Inr manifest"
    "complete_multipart_upload s3 bucket_name key upload_id manifest = Inl (ClientError reason)"
  shows "s3_calls (complete_multipart_lambda_handler s3 env ev ctx) =
           [CompleteMultipartUpload bucket_name key upload_id manifest,
            AbortMultipartUpload bucket_name key upload_id]
         \<and> (abort_multipart_upload s3 bucket_name key upload_id = Inr ()
              \<longrightarrow> complete_multipart_lambda_handler s3 env ev ctx =
                    \<lparr>returned = error_response 500 ''AWS service error completing multipart upload'',
                     s3_calls = [CompleteMultipartUpload bucket_name key upload_id manifest,
                                 AbortMultipartUpload bucket_name key upload_id],
                     printed = [LineExc ''AWS error completing multipart upload: '' (ClientError reason),
                                Line (''Aborted multipart upload '' @ upload_id @ '' for key '' @ key)]\<rparr>)
         \<and> (\<forall>abort_error. abort_multipart_upload s3 bucket_name key upload_id = Inl abort_error
              \<longrightarrow> printed (complete_multipart_lambda_handler s3 env ev ctx) =
                    [LineExc ''AWS error completing multipart upload: '' (ClientError reason),
                     LineExc ''Error aborting multipart upload: '' abort_error])"
  using assms
  by (auto simp add: complete_handler_valid abort_on_error_def split: sum.splits)

theorem finalize_rollback_witness:
  "s3_calls (complete_multipart_lambda_handler rejecting_store example_env
      (complete_event (Some ''session-1'') (Some ''uploads/1-a.bin'') (Some example_manifest))
      example_context) =
     [CompleteMultipartUpload ''upload-bucket'' ''uploads/1-a.bin'' ''session-1''
        [(JStr ''etag-1'', JInt 1), (JStr ''etag-2'', JInt 2)],
      AbortMultipartUpload ''upload-bucket'' ''uploads/1-a.bin'' ''session-1'']
   \<and> complete_multipart_lambda_handler rejecting_store example_env
      (complete_event (Some ''session-1'') (Some ''uploads/1-a.bin'') (Some example_manifest))
      example_context =
     \<lparr>returned = error_response 500 ''AWS service error completing multipart upload'',
      s3_calls =
        [CompleteMultipartUpload ''upload-bucket'' ''uploads/1-a.bin'' ''session-1''
           [(JStr ''etag-1'', JInt 1), (JStr ''etag-2'', JInt 2)],
         AbortMultipartUpload ''upload-bucket'' ''uploads/1-a.bin'' ''session-1''],
      printed = [LineExc ''AWS error completing multipart upload: '' (ClientError ''InvalidPart''),
                 Line ''Aborted multipart upload session-1 for key uploads/1-a.bin'']\<rparr>"
  using finalize_rollback [of "complete_event (Some ''session-1'') (Some ''uploads/1-a.bin'') (Some example_manifest)"
      "\<lparr>body_uploadId = Some ''session-1'', body_key = Some ''uploads/1-a.bin'', body_parts = Some example_manifest\<rparr>"
      "''session-1''" "''uploads/1-a.bin''" "[example_part 1 ''etag-1'', example_part 2 ''etag-2'']"
      example_env "''upload-bucket''" "[(JStr ''etag-1'', JInt 1), (JStr ''etag-2'', JInt 2)]"
      rejecting_store "''InvalidPart''" example_context]
  by (simp add: complete_event_def example_manifest_def example_env_def example_part_def
      subscript_def accepting_store_def rejecting_store_def)

text \<open>
  Claim C4, as amended. When the store rejects the completion and the compensating abort
  raises as well, the finalizer returns the same store error as when the abort succeeds
  (status 500, \<open>AWS service error completing multipart upload\<close>); both errors are
  printed to the log, and neither appears in the response.
\<close>

theorem finalize_abort_failure_logged:
  assumes "httpMethod ev \<noteq> Some ''OPTIONS''" "parsed_body ev = Inr req"
    "body_uploadId req = Some upload_id" "upload_id \<noteq> []"
    "body_key req = Some key" "key \<noteq> []"
    "body_parts req = Some (JList parts)" "parts \<noteq> []"
    "map_of env ''UPLOAD_BUCKET_NAME'' = Some bucket_name"
    "format_parts parts [] = Inr manifest"
    "complete_multipart_upload s3 bucket_name key upload_id manifest = Inl (ClientError reason)"
    "abort_multipart_upload s3 bucket_name key upload_id = Inl abort_error"
  shows "complete_multipart_lambda_handler s3 env ev ctx =
     \<lparr>returned = error_response 500 ''AWS service error completing multipart upload'',
      s3_calls = [CompleteMultipartUpload bucket_name key upload_id manifest,
                  AbortMultipartUpload bucket_name key upload_id],
      printed = [LineExc ''AWS error completing multipart upload: '' (ClientError reason),
                 LineExc ''Error aborting multipart upload: '' abort_error]\<rparr>"
  using assms
  by (simp add: complete_handler_valid abort_on_error_def)

theorem finalize_abort_failure_logged_witness:
  "complete_multipart_lambda_handler failing_store example_env
      (complete_event (Some ''session-1'') (Some ''uploads/1-a.bin'') (Some example_manifest))
      example_context =
     \<lparr>returned = error_response 500 ''AWS service error completing multipart upload'',
      s3_calls =
        [CompleteMultipartUpload ''upload-bucket'' ''uploads/1-a.bin'' ''session-1''
           [(JStr ''etag-1'', JInt 1), (JStr ''etag-2'', JInt 2)],
         AbortMultipartUpload ''upload-bucket'' ''uploads/1-a.bin'' ''session-1''],
      printed = [LineExc ''AWS error completing multipart upload: '' (ClientError ''InvalidPart''),
                 LineExc ''Error aborting multipart upload: '' (ClientError ''AccessDenied'')]\<rparr>"
  using finalize_abort_failure_logged [of "complete_event (Some ''session-1'') (Some ''uploads/1-a.bin'') (Some example_manifest)"
      "\<lparr>body_uploadId = Some ''session-1'', body_key = Some ''uploads/1-a.bin'', body_parts = Some example_manifest\<rparr>"
      "''session-1''" "''uploads/1-a.bin''" "[example_part 1 ''etag-1'', example_part 2 ''etag-2'']"
      example_env "''upload-bucket''" "[(JStr ''etag-1'', JInt 1), (JStr ''etag-2'', JInt 2)]"
      failing_store "''InvalidPart''" "ClientError ''AccessDenied''" example_context]
  by (simp add: complete_event_def example_manifest_def example_env_def example_part_def
      subscript_def accepting_store_def rejecting_store_def failing_store_def)

text \<open>
  The claim as stated asks for a result that differs from the plain store error and
  carries both errors. On the example manifest the response is the same whether the
  abort fails or succeeds, and its body is the fixed message.
\<close>

theorem finalize_partial_failure_counterexample:
  "returned (complete_multipart_lambda_handler failing_store example_env
      (complete_event (Some ''session-1'') (Some ''uploads/1-a.bin'') (Some example_manifest))
      example_context) =
   returned (complete_multipart_lambda_handler rejecting_store example_env
      (complete_event (Some ''session-1'') (Some ''uploads/1-a.bin'') (Some example_manifest))
      example_context)
   \<and> body (returned (complete_multipart_lambda_handler failing_store example_env
      (complete_event (Some ''session-1'') (Some ''uploads/1-a.bin'') (Some example_manifest))
      example_context)) =
     JsonDumps (JObj [(''error'', JStr ''AWS service error completing multipart upload'')])"
  by (simp add: complete_multipart_lambda_handler_def complete_event_def example_manifest_def
      example_env_def example_part_def subscript_def accepting_store_def rejecting_store_def
      failing_store_def truthy_str_def truthy_opt_def isinstance_list_def abort_on_error_def
      error_response_def json_response_def)

text \<open>
  Claim C9. When the manifest passes the validation but one of its entries is an object
  without \<open>ETag\<close> or without \<open>PartNumber\<close>, the finalizer returns the generic failure
  (status 500, \<open>Failed to complete multipart upload\<close>), which is neither the 400 of the
  validation nor the store error, and it makes no store call: no completion, no abort.
\<close>

theorem finalize_malformed_entry:
  assumes "httpMethod ev \<noteq> Some ''OPTIONS''" "parsed_body ev = Inr req"
    "body_uploadId req = Some upload_id" "upload_id \<noteq> []"
    "body_key req = Some key" "key \<noteq> []"
    "body_parts req = Some (JList parts)"
    "JObj kvs \<in> set parts"
    "map_of kvs ''ETag'' = None \<or> map_of kvs ''PartNumber'' = None"
  shows "returned (complete_multipart_lambda_handler s3 env ev ctx) =
           error_response 500 ''Failed to complete multipart upload''
         \<and> s3_calls (complete_multipart_lambda_handler s3 env ev ctx) = []
         \<and> statusCode (returned (complete_multipart_lambda_handler s3 env ev ctx)) \<noteq> 400
         \<and> returned (complete_multipart_lambda_handler s3 env ev ctx) \<noteq>
             error_response 500 ''AWS service error completing multipart upload''"
proof -
  from assms(8) have nonempty: "parts \<noteq> []" by auto
  have "subscript (JObj kvs) ''ETag'' = Inl (KeyError ''ETag'')
        \<or> subscript (JObj kvs) ''PartNumber'' = Inl (KeyError ''PartNumber'')"
    using assms(9) by (auto simp: subscript_def)
  from format_parts_missing_field [OF assms(8) this]
  obtain e where e: "format_parts parts [] = Inl e" by blast
  have "complete_multipart_lambda_handler s3 env ev ctx =
          complete_failed (KeyError ''UPLOAD_BUCKET_NAME'') []
        \<or> complete_multipart_lambda_handler s3 env ev ctx = complete_failed e []"
    using e by (simp add: complete_handler_valid [OF assms(1-7) nonempty] split: option.splits)
  then show ?thesis
    by (auto simp: complete_failed_def error_response_def json_response_def)
qed

theorem finalize_malformed_entry_witness:
  "returned (complete_multipart_lambda_handler accepting_store example_env
      (complete_event (Some ''session-1'') (Some ''uploads/1-a.bin'')
         (Some (JList [example_part 1 ''etag-1'', JObj [(''PartNumber'', JInt 2)]])))
      example_context) =
     error_response 500 ''Failed to complete multipart upload''
   \<and> s3_calls (complete_multipart_lambda_handler accepting_store example_env
      (complete_event (Some ''session-1'') (Some ''uploads/1-a.bin'')
         (Some (JList [example_part 1 ''etag-1'', JObj [(''PartNumber'', JInt 2)]])))
      example_context) = []"
  using finalize_malformed_entry [of "complete_event (Some ''session-1'') (Some ''uploads/1-a.bin'')
         (Some (JList [example_part 1 ''etag-1'', JObj [(''PartNumber'', JInt 2)]]))"
      "\<lparr>body_uploadId = Some ''session-1'', body_key = Some ''uploads/1-a.bin'',
        body_parts = Some (JList [example_part 1 ''etag-1'', JObj [(''PartNumber'', JInt 2)]])\<rparr>"
      "''session-1''" "''uploads/1-a.bin''" "[example_part 1 ''etag-1'', JObj [(''PartNumber'', JInt 2)]]"
      "[(''PartNumber'', JInt 2)]" accepting_store example_env example_context]
  by (simp add: complete_event_def)

section \<open>The planner\<close>

text \<open>What the planner does once the request has passed the validation.\<close>

lemma plan_try_valid:
  assumes "parsed_body ev = Inr req"
    "body_fileName req = Some file_name" "file_name \<noteq> []"
    "body_fileType req = Some file_type" "file_type \<noteq> []"
  shows "presigned_url_try s3 env ev ctx =
     (case map_of env ''UPLOAD_BUCKET_NAME'' of
        None \<Rightarrow> (Inl (KeyError ''UPLOAD_BUCKET_NAME''), [])
      | Some bucket_name \<Rightarrow>
          (case object_key ctx file_name of
             Inl e \<Rightarrow> (Inl e, [])
           | Inr key \<Rightarrow>
               if is_large_file (body_fileSize req)
               then multipart_upload s3 bucket_name key file_type (body_fileSize req)
               else single_upload s3 bucket_name key file_type))"
  using assms by (simp add: presigned_url_try_def truthy_str_def)

text \<open>
  Claim C7. A planning request whose \<open>fileName\<close> or \<open>fileType\<close> is missing or empty,
  and a finalizing request whose \<open>uploadId\<close> or \<open>key\<close> is missing or empty or whose
  \<open>parts\<close> is anything but a non-empty list, is answered with status 400 and no store
  call at all has been made.
\<close>

theorem validation_before_store:
  "(httpMethod ev \<noteq> Some ''OPTIONS'' \<and> parsed_body ev = Inr req
      \<and> (body_fileName req = None \<or> body_fileName req = Some []
          \<or> body_fileType req = None \<or> body_fileType req = Some [])
    \<longrightarrow> presigned_url_lambda_handler s3 env ev ctx =
          \<lparr>returned = error_response 400 ''fileName and fileType are required'',
           s3_calls = [], printed = []\<rparr>)
   \<and> (httpMethod cev \<noteq> Some ''OPTIONS'' \<and> parsed_body cev = Inr creq
      \<and> (body_uploadId creq = None \<or> body_uploadId creq = Some []
          \<or> body_key creq = None \<or> body_key creq = Some []
          \<or> (\<forall>part rest. body_parts creq \<noteq> Some (JList (part # rest))))
    \<longrightarrow> complete_multipart_lambda_handler s3 env cev ctx =
          \<lparr>returned = error_response 400 ''uploadId, key, and parts array are required'',
           s3_calls = [], printed = []\<rparr>)"
proof (intro conjI impI)
  assume "httpMethod ev \<noteq> Some ''OPTIONS'' \<and> parsed_body ev = Inr req
      \<and> (body_fileName req = None \<or> body_fileName req = Some []
          \<or> body_fileType req = None \<or> body_fileType req = Some [])"
  then show "presigned_url_lambda_handler s3 env ev ctx =
          \<lparr>returned = error_response 400 ''fileName and fileType are required'',
           s3_calls = [], printed = []\<rparr>"
    by (auto simp: presigned_url_lambda_handler_def presigned_url_try_def truthy_str_def)
next
  assume a: "httpMethod cev \<noteq> Some ''OPTIONS'' \<and> parsed_body cev = Inr creq
      \<and> (body_uploadId creq = None \<or> body_uploadId creq = Some []
          \<or> body_key creq = None \<or> body_key creq = Some []
          \<or> (\<forall>part rest. body_parts creq \<noteq> Some (JList (part # rest))))"
  have "\<not> truthy_str (body_uploadId creq) \<or> \<not> truthy_str (body_key creq)
        \<or> \<not> truthy_opt (body_parts creq) \<or> \<not> isinstance_list (body_parts creq)"
  proof (cases "body_parts creq")
    case None
    then show ?thesis by (simp add: truthy_opt_def)
  next
    case (Some v)
    show ?thesis
    proof (cases v)
      case (JList xs)
      show ?thesis
      proof (cases xs)
        case Nil
        with Some JList show ?thesis by (simp add: truthy_opt_def)
      next
        case (Cons p ps)
        with Some JList a show ?thesis by (auto simp: truthy_str_def)
      qed
    qed (simp_all add: Some isinstance_list_def)
  qed
  with a show "complete_multipart_lambda_handler s3 env cev ctx =
          \<lparr>returned = error_response 400 ''uploadId, key, and parts array are required'',
           s3_calls = [], printed = []\<rparr>"
    by (simp add: complete_multipart_lambda_handler_def)
qed

theorem validation_before_store_witness:
  "presigned_url_lambda_handler accepting_store example_env
      (upload_event (Some []) (Some ''image/png'') (Some 5)) example_context =
     \<lparr>returned = error_response 400 ''fileName and fileType are required'',
      s3_calls = [], printed = []\<rparr>
   \<and> complete_multipart_lambda_handler accepting_store example_env
      (complete_event (Some ''session-1'') (Some ''uploads/1-a.bin'') (Some (JStr ''etag-1'')))
      example_context =
     \<lparr>returned = error_response 400 ''uploadId, key, and parts array are required'',
      s3_calls = [], printed = []\<rparr>"
  using validation_before_store [of "upload_event (Some []) (Some ''image/png'') (Some 5)"
      "\<lparr>body_fileName = Some [], body_fileType = Some ''image/png'', body_fileSize = Some 5\<rparr>"
      accepting_store example_env example_context
      "complete_event (Some ''session-1'') (Some ''uploads/1-a.bin'') (Some (JStr ''etag-1''))"
      "\<lparr>body_uploadId = Some ''session-1'', body_key = Some ''uploads/1-a.bin'',
        body_parts = Some (JStr ''etag-1'')\<rparr>"]
  by (simp add: upload_event_def complete_event_def)

text \<open>
  Claim C5. For a valid request whose \<open>fileSize\<close> is absent or at most 100 MiB the
  planner never calls \<open>create_multipart_upload\<close>, whatever the store answers; and when
  the bucket is configured, the key derives and the signing succeeds, it returns the
  single-shot result with exactly one presigned \<open>put_object\<close> URL for that key and
  content type, the signing being its only call on the client.
\<close>

theorem plan_single_shot:
  assumes "httpMethod ev \<noteq> Some ''OPTIONS''" "parsed_body ev = Inr req"
    "body_fileName req = Some file_name" "file_name \<noteq> []"
    "body_fileType req = Some file_type" "file_type \<noteq> []"
    "body_fileSize req = None \<or> (\<exists>n. body_fileSize req = Some n \<and> n \<le> 100 * 1024 * 1024)"
  shows "(\<forall>bucket key content_type.
            CreateMultipartUpload bucket key content_type
              \<notin> set (s3_calls (presigned_url_lambda_handler s3 env ev ctx)))
         \<and> (\<forall>call \<in> set (s3_calls (presigned_url_lambda_handler s3 env ev ctx)).
              \<exists>params. call = GeneratePresignedUrl ''put_object'' params 3600)
         \<and> (\<forall>bucket_name key presigned_url.
              map_of env ''UPLOAD_BUCKET_NAME'' = Some bucket_name
              \<and> object_key ctx file_name = Inr key
              \<and> generate_presigned_url s3 ''put_object''
                   (PutObjectParams bucket_name key file_type) 3600 = Inr presigned_url
              \<longrightarrow> presigned_url_lambda_handler s3 env ev ctx =
                    \<lparr>returned = json_response 200
                       (JObj [(''uploadType'', JStr ''single''),
                              (''presignedUrl'', JStr presigned_url),
                              (''key'', JStr key)]),
                     s3_calls = [GeneratePresignedUrl ''put_object''
                                   (PutObjectParams bucket_name key file_type) 3600],
                     printed = []\<rparr>)"
proof -
  have small: "\<not> is_large_file (body_fileSize req)"
    using assms(7) by (auto simp: is_large_file_def)
  show ?thesis
    using assms(1) small
    by (auto simp: presigned_url_lambda_handler_def plan_try_valid [OF assms(2-6)]
        single_upload_def Let_def split: option.splits sum.splits)
qed

text \<open>The key derived for the two example contexts.\<close>

lemma int_base16_example: "int_base16 ''8f3c2a1b'' = Inr 2403084827"
  by (simp add: int_base16_def skip_sign_def skip_hex_prefix_def py_isspace_def digit_value_def)

lemma str_int_example: "str_int 2403084827 = ''2403084827''"
  by (simp add: str_int_def)

lemma object_key_example:
  "object_key example_context file_name = Inr (''uploads/2403084827-'' @ file_name)"
  by (simp add: object_key_def example_context_def int_base16_example str_int_example)

lemma object_key_other:
  "object_key other_context file_name = Inr (''uploads/2403084827-'' @ file_name)"
  by (simp add: object_key_def other_context_def int_base16_example str_int_example)

theorem plan_single_shot_witness:
  "(\<forall>bucket key content_type.
      CreateMultipartUpload bucket key content_type
        \<notin> set (s3_calls (presigned_url_lambda_handler accepting_store example_env
              (upload_event (Some ''photo.png'') (Some ''image/png'') (Some 104857600))
              example_context)))
   \<and> presigned_url_lambda_handler accepting_store example_env
        (upload_event (Some ''photo.png'') (Some ''image/png'') (Some 104857600))
        example_context =
      \<lparr>returned = json_response 200
         (JObj [(''uploadType'', JStr ''single''),
                (''presignedUrl'', JStr ''https://signed.example''),
                (''key'', JStr ''uploads/2403084827-photo.png'')]),
       s3_calls = [GeneratePresignedUrl ''put_object''
                     (PutObjectParams ''upload-bucket'' ''uploads/2403084827-photo.png'' ''image/png'')
                     3600],
       printed = []\<rparr>"
  using plan_single_shot [of "upload_event (Some ''photo.png'') (Some ''image/png'') (Some 104857600)"
      "\<lparr>body_fileName = Some ''photo.png'', body_fileType = Some ''image/png'',
        body_fileSize = Some 104857600\<rparr>"
      "''photo.png''" "''image/png''" accepting_store example_env example_context]
  by (simp add: upload_event_def example_env_def object_key_example accepting_store_def)

text \<open>
  Claim C10. A \<open>fileSize\<close> that is zero or negative is not rejected: the planner does
  exactly what it does when \<open>fileSize\<close> is absent, and succeeds in single-shot mode.
\<close>

theorem plan_nonpositive_size:
  assumes "n \<le> 0"
    "httpMethod ev \<noteq> Some ''OPTIONS''"
    "body_fileName req = Some file_name" "file_name \<noteq> []"
    "body_fileType req = Some file_type" "file_type \<noteq> []"
    "map_of env ''UPLOAD_BUCKET_NAME'' = Some bucket_name"
    "object_key ctx file_name = Inr key"
    "generate_presigned_url s3 ''put_object'' (PutObjectParams bucket_name key file_type) 3600
       = Inr presigned_url"
  shows "presigned_url_lambda_handler s3 env
           (ev\<lparr>parsed_body := Inr (req\<lparr>body_fileSize := Some n\<rparr>)\<rparr>) ctx =
         presigned_url_lambda_handler s3 env
           (ev\<lparr>parsed_body := Inr (req\<lparr>body_fileSize := None\<rparr>)\<rparr>) ctx
       \<and> presigned_url_lambda_handler s3 env
           (ev\<lparr>parsed_body := Inr (req\<lparr>body_fileSize := Some n\<rparr>)\<rparr>) ctx =
         \<lparr>returned = json_response 200
            (JObj [(''uploadType'', JStr ''single''),
                   (''presignedUrl'', JStr presigned_url),
                   (''key'', JStr key)]),
          s3_calls = [GeneratePresignedUrl ''put_object''
                        (PutObjectParams bucket_name key file_type) 3600],
          printed = []\<rparr>"
proof -
  have try_eq:
    "presigned_url_try s3 env (ev\<lparr>parsed_body := Inr (req\<lparr>body_fileSize := fs\<rparr>)\<rparr>) ctx =
      (if is_large_file fs
       then multipart_upload s3 bucket_name key file_type fs
       else single_upload s3 bucket_name key file_type)" for fs
    using assms(3-8)
    by (simp add: plan_try_valid [of _ "req\<lparr>body_fileSize := fs\<rparr>" file_name file_type])
  have small: "\<not> is_large_file (Some n)" "\<not> is_large_file None"
    using assms(1) by (simp_all add: is_large_file_def)
  show ?thesis
    using assms(2,9) small
    by (simp add: presigned_url_lambda_handler_def try_eq single_upload_def)
qed

theorem plan_nonpositive_size_witness:
  "presigned_url_lambda_handler accepting_store example_env
     (upload_event (Some ''photo.png'') (Some ''image/png'') (Some (- 5))) example_context =
   presigned_url_lambda_handler accepting_store example_env
     (upload_event (Some ''photo.png'') (Some ''image/png'') None) example_context
   \<and> presigned_url_lambda_handler accepting_store example_env
     (upload_event (Some ''photo.png'') (Some ''image/png'') (Some (- 5))) example_context =
      \<lparr>returned = json_response 200
         (JObj [(''uploadType'', JStr ''single''),
                (''presignedUrl'', JStr ''https://signed.example''),
                (''key'', JStr ''uploads/2403084827-photo.png'')]),
       s3_calls = [GeneratePresignedUrl ''put_object''
                     (PutObjectParams ''upload-bucket'' ''uploads/2403084827-photo.png'' ''image/png'')
                     3600],
       printed = []\<rparr>"
proof -
  let ?ev = "upload_event (Some ''photo.png'') (Some ''image/png'') None"
  let ?req = "\<lparr>body_fileName = Some ''photo.png'', body_fileType = Some ''image/png'',
               body_fileSize = None\<rparr>"
  have ev: "?ev\<lparr>parsed_body := Inr (?req\<lparr>body_fileSize := fs\<rparr>)\<rparr> =
            upload_event (Some ''photo.png'') (Some ''image/png'') fs" for fs
    by (simp add: upload_event_def)
  have "httpMethod ?ev \<noteq> Some ''OPTIONS''"
    by (simp add: upload_event_def)
  moreover have "map_of example_env ''UPLOAD_BUCKET_NAME'' = Some ''upload-bucket''"
    by (simp add: example_env_def)
  moreover have "object_key example_context ''photo.png'' = Inr ''uploads/2403084827-photo.png''"
    by (simp add: object_key_example)
  moreover have "generate_presigned_url accepting_store ''put_object''
      (PutObjectParams ''upload-bucket'' ''uploads/2403084827-photo.png'' ''image/png'') 3600 =
      Inr ''https://signed.example''"
    by (simp add: accepting_store_def)
  ultimately show ?thesis
    using plan_nonpositive_size [of "- 5" ?ev ?req "''photo.png''" "''image/png''" example_env
        "''upload-bucket''" example_context "''uploads/2403084827-photo.png''" accepting_store
        "''https://signed.example''"]
    unfolding ev by auto
qed

text \<open>
  Claim C8. The key is derived from the first eight characters of the request id only.
  Two invocations with different request ids that agree on those characters, for the same
  file name, derive the same key and return the same response.
\<close>

theorem object_key_collision:
  "aws_request_id example_context \<noteq> aws_request_id other_context
   \<and> object_key example_context ''report.pdf'' = Inr ''uploads/2403084827-report.pdf''
   \<and> object_key other_context ''report.pdf'' = Inr ''uploads/2403084827-report.pdf''
   \<and> returned (presigned_url_lambda_handler accepting_store example_env
        (upload_event (Some ''report.pdf'') (Some ''application/pdf'') (Some 2048)) example_context) =
     returned (presigned_url_lambda_handler accepting_store example_env
        (upload_event (Some ''report.pdf'') (Some ''application/pdf'') (Some 2048)) other_context)"
  by (simp add: object_key_example object_key_other presigned_url_lambda_handler_def
      presigned_url_try_def truthy_str_def upload_event_def example_env_def is_large_file_def
      single_upload_def accepting_store_def)
   (simp add: example_context_def other_context_def)

section \<open>The float division of the part count\<close>

text \<open>
  \<open>floor_log2\<close> is the binary exponent of a positive rational: the \<open>e\<close> with
  \<open>2\<^sup>e \<le> q < 2\<^sup>e\<^sup>+\<^sup>1\<close>.
\<close>

lemma bitlen_rat_bounds:
  fixes a :: int
  assumes "0 < a"
  shows "(2::rat) powi (bitlen a - 1) \<le> of_int a" and "of_int a < (2::rat) powi bitlen a"
proof -
  from assms have pos: "1 \<le> bitlen a"
    using bitlen_eq_zero_iff [of a] bitlen_nonneg [of a] by linarith
  from bitlen_bounds [OF assms]
  have lo: "(2::int) ^ nat (bitlen a - 1) \<le> a" and hi: "a < (2::int) ^ nat (bitlen a)"
    by auto
  have "(of_int ((2::int) ^ nat (bitlen a - 1)) :: rat) \<le> of_int a"
    using lo by (simp only: of_int_le_iff)
  then show "(2::rat) powi (bitlen a - 1) \<le> of_int a"
    using pos by (simp add: power_int_def)
  have "(of_int a :: rat) < of_int ((2::int) ^ nat (bitlen a))"
    using hi by (simp only: of_int_less_iff)
  then show "of_int a < (2::rat) powi bitlen a"
    using pos by (simp add: power_int_def)
qed

lemma floor_log2_bounds:
  assumes "0 < q"
  shows "2 powi floor_log2 q \<le> q" and "q < 2 powi (floor_log2 q + 1)"
proof -
  obtain a b where ab: "quotient_of q = (a, b)"
    by (cases "quotient_of q")
  then have b: "0 < b" and q: "q = of_int a / of_int b"
    by (simp_all add: quotient_of_denom_pos quotient_of_div)
  from assms q b have a: "0 < a"
    by (simp add: zero_less_divide_iff)
  define d where "d = bitlen a - bitlen b"
  have bpos: "(0::rat) < of_int b" using b by simp
  have two: "(0::rat) < 2 powi n" for n by (simp add: zero_less_power_int)
  have "q < 2 powi bitlen a / 2 powi (bitlen b - 1)"
  proof -
    have "q < 2 powi bitlen a / of_int b"
      unfolding q using bitlen_rat_bounds(2) [OF a] bpos by (simp add: divide_strict_right_mono)
    also have "\<dots> \<le> 2 powi bitlen a / 2 powi (bitlen b - 1)"
      using bitlen_rat_bounds(1) [OF b] two by (simp add: frac_le)
    finally show ?thesis .
  qed
  also have "2 powi bitlen a / 2 powi (bitlen b - 1) = (2::rat) powi (d + 1)"
    by (simp add: d_def power_int_diff [symmetric] algebra_simps)
  finally have upper: "q < 2 powi (d + 1)" .
  have "(2::rat) powi (d - 1) = 2 powi (bitlen a - 1) / 2 powi bitlen b"
    by (simp add: d_def power_int_diff [symmetric] algebra_simps)
  also have "\<dots> < 2 powi (bitlen a - 1) / of_int b"
    using bitlen_rat_bounds(2) [OF b] bpos two by (simp add: divide_strict_left_mono)
  also have "\<dots> \<le> q"
    unfolding q using bitlen_rat_bounds(1) [OF a] bpos by (simp add: divide_right_mono)
  finally have lower: "2 powi (d - 1) < q" .
  have fl: "floor_log2 q = (if 2 powi d \<le> q then d else d - 1)"
    by (simp add: floor_log2_def ab d_def)
  show "2 powi floor_log2 q \<le> q"
    using lower by (simp add: fl)
  show "q < 2 powi (floor_log2 q + 1)"
    using upper by (simp add: fl)
qed

lemma floor_log2_unique:
  assumes "2 powi e \<le> q" and "q < 2 powi (e + 1)"
  shows "floor_log2 q = e"
proof -
  have "(0::rat) < 2 powi e" by (simp add: zero_less_power_int)
  with assms(1) have pos: "0 < q" by linarith
  note b = floor_log2_bounds [OF pos]
  have "(2::rat) powi e < 2 powi (floor_log2 q + 1)"
    using assms(1) b(2) by simp
  then have "e < floor_log2 q + 1"
    by (rule_tac ccontr) (use power_int_increasing [of "floor_log2 q + 1" e "2::rat"] in auto)
  moreover have "(2::rat) powi floor_log2 q < 2 powi (e + 1)"
    using assms(2) b(1) by simp
  then have "floor_log2 q < e + 1"
    by (rule_tac ccontr) (use power_int_increasing [of "e + 1" "floor_log2 q" "2::rat"] in auto)
  ultimately show ?thesis by simp
qed

text \<open>Rounding to an integer moves a number by at most one half, and leaves integers alone.\<close>

lemma round_half_even_error: "\<bar>of_int (round_half_even x) - x\<bar> \<le> 1 / 2"
proof -
  have "of_int \<lfloor>x\<rfloor> \<le> x" "x < of_int \<lfloor>x\<rfloor> + 1"
    by linarith+
  then show ?thesis
    by (auto simp: round_half_even_def Let_def abs_le_iff)
qed

lemma round_half_even_of_int: "round_half_even (of_int k) = k"
  by (simp add: round_half_even_def)

lemma floor_log2_less:
  assumes "0 < q" and "q < 2 powi n"
  shows "floor_log2 q < n"
proof (rule ccontr)
  assume "\<not> floor_log2 q < n"
  then have "(2::rat) powi n \<le> 2 powi floor_log2 q"
    by (simp add: power_int_increasing)
  with floor_log2_bounds(1) [OF assms(1)] assms(2) show False by linarith
qed

lemma floor_log2_ge:
  assumes "2 powi n \<le> q"
  shows "n \<le> floor_log2 q"
proof (rule ccontr)
  have "(0::rat) < 2 powi n" by (simp add: zero_less_power_int)
  with assms have pos: "0 < q" by linarith
  assume "\<not> n \<le> floor_log2 q"
  then have "(2::rat) powi (floor_log2 q + 1) \<le> 2 powi n"
    by (simp add: power_int_increasing)
  with floor_log2_bounds(2) [OF pos] assms show False by linarith
qed

text \<open>
  In the normal range a positive quotient rounds to a double (no overflow), and the double
  is within half a unit in the last place of it.
\<close>

lemma round_to_double_error:
  assumes "0 < q" and "- 1022 \<le> floor_log2 q" and "floor_log2 q \<le> 1021"
  shows "round_to_double q =
           Some (of_int (round_half_even (q * 2 powi (52 - floor_log2 q)))
                   * 2 powi (floor_log2 q - 52))"
    and "\<bar>of_int (round_half_even (q * 2 powi (52 - floor_log2 q))) * 2 powi (floor_log2 q - 52) - q\<bar>
           \<le> 2 powi (floor_log2 q - 53)"
proof -
  define e where "e = floor_log2 q"
  define s :: rat where "s = 2 powi (52 - e)"
  define m where "m = round_half_even (q * s)"
  define v where "v = of_int m * (2::rat) powi (e - 52)"
  have s: "0 < s" by (simp add: s_def zero_less_power_int)
  have inv: "(2::rat) powi (e - 52) = 1 / s"
    using power_int_minus_divide [of "2::rat" "52 - e"] by (simp add: s_def)
  have half: "\<bar>of_int m - q * s\<bar> \<le> 1 / 2"
    unfolding m_def by (rule round_half_even_error)
  have "\<bar>of_int m - q * s\<bar> / s \<le> (1 / 2) / s"
    by (rule divide_right_mono [OF half]) (use s in simp)
  moreover have "\<bar>of_int m - q * s\<bar> / s = \<bar>v - q\<bar>"
  proof -
    have "v - q = (of_int m - q * s) / s"
      using s by (simp add: v_def inv field_simps)
    then show ?thesis using s by (simp add: abs_divide)
  qed
  moreover have "(1 / 2) / s = (2::rat) powi (e - 53)"
  proof -
    have "(2::rat) powi (e - 53) = 2 powi (e - 52) / 2 powi 1"
      using power_int_diff [of "2::rat" "e - 52" 1] by simp
    then show ?thesis by (simp add: inv)
  qed
  ultimately have err: "\<bar>v - q\<bar> \<le> 2 powi (e - 53)" by simp
  have "q < 2 powi (e + 1)"
    unfolding e_def by (rule floor_log2_bounds(2) [OF assms(1)])
  moreover have "(2::rat) powi (e - 53) \<le> 2 powi (e + 1)"
    by (simp add: power_int_increasing)
  ultimately have "v < 2 powi (e + 1) + 2 powi (e + 1)"
    using err by (simp add: abs_le_iff)
  also have "\<dots> = (2::rat) powi (e + 2)"
    using power_int_add [of "2::rat" "e + 1" 1] by (simp add: algebra_simps)
  also have "\<dots> \<le> 2 powi 1024"
    by (rule power_int_increasing) (use assms(3) in \<open>simp_all add: e_def\<close>)
  finally have small: "\<not> 2 ^ 1024 \<le> v" by simp
  have mx: "max (floor_log2 q) (- 1022) = floor_log2 q"
    using assms(2) by simp
  have "round_to_double q = (if 2 ^ 1024 \<le> v then None else Some v)"
    unfolding round_to_double_def Let_def v_def m_def s_def e_def
    using assms(1) by (simp add: mx)
  with small have "round_to_double q = Some v"
    by (simp only: if_False)
  then show "round_to_double q =
           Some (of_int (round_half_even (q * 2 powi (52 - floor_log2 q)))
                   * 2 powi (floor_log2 q - 52))"
    by (simp only: v_def m_def s_def e_def)
  from err show "\<bar>of_int (round_half_even (q * 2 powi (52 - floor_log2 q))) * 2 powi (floor_log2 q - 52) - q\<bar>
           \<le> 2 powi (floor_log2 q - 53)"
    by (simp only: v_def m_def s_def e_def)
qed

text \<open>An integer below \<open>2\<^sup>5\<^sup>3\<close> is a double.\<close>

lemma round_to_double_exact:
  assumes "0 < k" and "floor_log2 (of_int k) \<le> 52"
  shows "round_to_double (of_int k) = Some (of_int k)"
proof -
  define e where "e = floor_log2 (of_int k)"
  have "(2::rat) powi 0 \<le> of_int k"
    using assms(1) by simp
  then have lo: "0 \<le> e"
    unfolding e_def by (rule floor_log2_ge)
  have hi: "e \<le> 52"
    using assms(2) by (simp add: e_def)
  define n where "n = nat (52 - e)"
  have s: "(2::rat) powi (52 - e) = of_int (2 ^ n)"
    using hi by (simp add: n_def power_int_def)
  have inv: "(2::rat) powi (e - 52) = 1 / of_int (2 ^ n)"
    using power_int_minus_divide [of "2::rat" "52 - e"] s by simp
  have "round_half_even (of_int k * 2 powi (52 - e)) = k * 2 ^ n"
    unfolding s of_int_mult [symmetric] by (rule round_half_even_of_int)
  then have "of_int (round_half_even (of_int k * 2 powi (52 - e))) * 2 powi (e - 52) =
      (of_int k :: rat)"
    by (simp add: inv)
  moreover have "round_to_double (of_int k) =
      Some (of_int (round_half_even (of_int k * 2 powi (52 - e))) * 2 powi (e - 52))"
    unfolding e_def
    by (rule round_to_double_error(1)) (use assms(1) lo hi in \<open>simp_all add: e_def\<close>)
  ultimately show ?thesis by simp
qed

text \<open>
  The part count. Up to \<open>10 * 2\<^sup>5\<^sup>0\<close> bytes (10 PiB) the double quotient
  \<^verbatim>\<open>file_size / part_size\<close> is close enough to the exact one for \<^verbatim>\<open>math.ceil\<close> to
  return the exact ceiling: the quotient is below \<open>2\<^sup>3\<^sup>0\<close>, so the rounding error is at
  most \<open>2\<^sup>-\<^sup>2\<^sup>4\<close>, less than the distance \<open>1 / part_size\<close> of a non-integer
  quotient from the nearest integer.
\<close>

lemma below_power_24: "(2::rat) powi (- 24) < 1 / of_int part_size"
  by (simp add: part_size_def power_int_minus_divide)

lemma py_truediv_part_size:
  assumes "0 < a" and "a \<le> 10 * 2 ^ 50"
  shows "\<exists>v. py_truediv a part_size = Inr v
           \<and> math_ceil v = \<lceil>(of_int a / of_int part_size :: rat)\<rceil>"
proof -
  define q :: rat where "q = of_int a / of_int part_size"
  define k where "k = a div part_size"
  define r where "r = a mod part_size"
  have P: "(0::rat) < of_int part_size" "part_size \<noteq> 0"
    by (simp_all add: part_size_def)
  have a: "a = k * part_size + r"
    by (simp add: k_def r_def)
  have r: "0 \<le> r" "r < part_size"
    by (simp_all add: r_def part_size_def)
  have k0: "0 \<le> k"
    using assms(1) by (simp add: k_def part_size_def pos_imp_zdiv_nonneg_iff)
  have qkr: "q = of_int k + of_int r / of_int part_size"
    using P by (simp add: q_def a field_simps)
  have qpos: "0 < q"
    using assms(1) P by (simp add: q_def)
  show ?thesis
  proof (cases "r = 0")
    case True
    then have qk: "q = of_int k" by (simp add: qkr)
    with qpos have kpos: "0 < k" by simp
    have "k \<le> 2 ^ 30"
      using assms(2) by (simp add: k_def part_size_def) 
    then have "(of_int k :: rat) \<le> of_int (2 ^ 30)"
      by (simp only: of_int_le_iff)
    then have "(of_int k :: rat) < 2 powi 31"
      by simp
    then have "floor_log2 (of_int k) < 31"
      using kpos by (intro floor_log2_less) simp_all
    then have "round_to_double (of_int k) = Some (of_int k)"
      using kpos by (intro round_to_double_exact) simp_all
    then show ?thesis
      using P by (simp add: py_truediv_def q_def [symmetric] qk math_ceil_def)
  next
    case False
    with r have rpos: "0 < r" by simp
    have frac_lo: "1 / of_int part_size \<le> of_int r / (of_int part_size :: rat)"
      using rpos P by (simp add: divide_right_mono)
    have frac_hi: "of_int r / (of_int part_size :: rat) \<le> 1 - 1 / of_int part_size"
    proof -
      have "r \<le> part_size - 1" using r by simp
      then have "(of_int r :: rat) \<le> of_int (part_size - 1)"
        by (simp only: of_int_le_iff)
      then have "of_int r / (of_int part_size :: rat) \<le> of_int (part_size - 1) / of_int part_size"
        using P by (simp add: divide_right_mono)
      also have "\<dots> = 1 - 1 / of_int part_size"
        using P by (simp add: field_simps)
      finally show ?thesis .
    qed
    have "a < 2 ^ 30 * part_size"
    proof -
      have "a \<noteq> 2 ^ 30 * part_size"
        using False by (auto simp: r_def)
      with assms(2) show ?thesis by (simp add: part_size_def)
    qed
    then have "k < 2 ^ 30"
      unfolding k_def part_size_def by simp
    then have "k + 1 \<le> 2 ^ 30" by simp
    then have "(of_int (k + 1) :: rat) \<le> of_int (2 ^ 30)"
      by (simp only: of_int_le_iff)
    then have k1: "(of_int k :: rat) + 1 \<le> 2 powi 30" by simp
    have pinv: "(0::rat) < 1 / of_int part_size"
      using P by simp
    have "q < 2 powi 30"
      unfolding qkr using k1 frac_hi pinv by linarith
    then have e_hi: "floor_log2 q < 30"
      using qpos by (rule floor_log2_less [rotated])
    have "(0::rat) \<le> of_int k"
      using k0 by simp
    then have "2 powi (- 24) \<le> q"
      unfolding qkr using below_power_24 frac_lo by linarith
    then have e_lo: "- 24 \<le> floor_log2 q"
      by (rule floor_log2_ge)
    define v where
      "v = of_int (round_half_even (q * 2 powi (52 - floor_log2 q))) * (2::rat) powi (floor_log2 q - 52)"
    have rt: "round_to_double q = Some v"
      unfolding v_def by (rule round_to_double_error(1)) (use qpos e_lo e_hi in simp_all)
    have "\<bar>v - q\<bar> \<le> 2 powi (floor_log2 q - 53)"
      unfolding v_def by (rule round_to_double_error(2)) (use qpos e_lo e_hi in simp_all)
    moreover have "(2::rat) powi (floor_log2 q - 53) \<le> 2 powi (- 24)"
      by (rule power_int_increasing) (use e_hi in simp_all)
    ultimately have err: "\<bar>v - q\<bar> < 1 / of_int part_size"
      using below_power_24 by linarith
    have "of_int k < v"
      using err frac_lo unfolding qkr abs_less_iff by linarith
    moreover have "v < of_int k + 1"
      using err frac_hi unfolding qkr abs_less_iff by linarith
    ultimately have "\<lceil>v\<rceil> = k + 1"
      by (intro ceiling_unique) simp_all
    moreover have "\<lceil>q\<rceil> = k + 1"
    proof (rule ceiling_unique)
      have succ: "(of_int (k + 1) :: rat) = of_int k + 1" by simp
      show "of_int (k + 1) - 1 < q"
        unfolding qkr succ using frac_lo pinv by linarith
      show "q \<le> of_int (k + 1)"
        unfolding qkr succ using frac_hi pinv by linarith
    qed
    ultimately show ?thesis
      using rt P by (simp add: py_truediv_def q_def [symmetric] math_ceil_def)
  qed
qed

section \<open>The multipart plan\<close>

text \<open>
  When the loop over the part numbers completes, it has appended one entry per part
  number, in order, each carrying its part number.
\<close>

lemma presign_parts_result:
  assumes "presign_parts s3 bucket_name key upload_id part_numbers presigned_urls calls = (Inr urls, calls')"
  shows "\<exists>new. urls = presigned_urls @ new \<and> length new = length part_numbers
           \<and> (\<forall>i < length part_numbers. \<exists>url.
                 new ! i = JObj [(''partNumber'', JInt (part_numbers ! i)), (''presignedUrl'', JStr url)])"
  using assms
proof (induction part_numbers arbitrary: presigned_urls calls)
  case Nil
  then show ?case by simp
next
  case (Cons part_number rest)
  let ?params = "UploadPartParams bucket_name key part_number upload_id"
  from Cons.prems obtain url where
    url: "generate_presigned_url s3 ''upload_part'' ?params 3600 = Inr url"
    by (cases "generate_presigned_url s3 ''upload_part'' ?params 3600") (simp_all add: Let_def)
  let ?entry = "JObj [(''partNumber'', JInt part_number), (''presignedUrl'', JStr url)]"
  from Cons.prems url have
    "presign_parts s3 bucket_name key upload_id rest (presigned_urls @ [?entry])
       (calls @ [GeneratePresignedUrl ''upload_part'' ?params 3600]) = (Inr urls, calls')"
    by (simp add: Let_def)
  from Cons.IH [OF this] obtain new where new:
    "urls = (presigned_urls @ [?entry]) @ new" "length new = length rest"
    "\<forall>i < length rest. \<exists>url.
       new ! i = JObj [(''partNumber'', JInt (rest ! i)), (''presignedUrl'', JStr url)]"
    by blast
  have "\<forall>i < length (part_number # rest). \<exists>url.
       (?entry # new) ! i = JObj [(''partNumber'', JInt ((part_number # rest) ! i)), (''presignedUrl'', JStr url)]"
  proof (intro allI impI)
    fix i assume "i < length (part_number # rest)"
    then show "\<exists>url. (?entry # new) ! i =
        JObj [(''partNumber'', JInt ((part_number # rest) ! i)), (''presignedUrl'', JStr url)]"
      using new(3) by (cases i) auto
  qed
  with new(1,2) show ?case
    by (intro exI [of _ "?entry # new"]) simp
qed

text \<open>When every signing succeeds, the loop completes, with one call per part number.\<close>

lemma presign_parts_cooperating:
  assumes "\<forall>p. generate_presigned_url s3 ''upload_part''
              (UploadPartParams bucket_name key p upload_id) 3600 = Inr (url p)"
  shows "presign_parts s3 bucket_name key upload_id part_numbers presigned_urls calls =
     (Inr (presigned_urls @
           map (\<lambda>p. JObj [(''partNumber'', JInt p), (''presignedUrl'', JStr (url p))]) part_numbers),
      calls @ map (\<lambda>p. GeneratePresignedUrl ''upload_part''
                          (UploadPartParams bucket_name key p upload_id) 3600) part_numbers)"
  using assms
  by (induction part_numbers arbitrary: presigned_urls calls) (simp_all add: Let_def)

text \<open>
  A multipart plan that succeeds holds as many entries as \<^verbatim>\<open>math.ceil\<close> of the double
  quotient says, numbered from 1 in order.
\<close>

lemma multipart_upload_result:
  assumes "multipart_upload s3 bucket_name key file_type (Some n) = (Inr resp, calls)"
  shows "\<exists>upload_id v urls.
           py_truediv n part_size = Inr v
           \<and> resp = json_response 200
                 (JObj [(''uploadType'', JStr ''multipart''),
                        (''uploadId'', JStr upload_id),
                        (''key'', JStr key),
                        (''presignedUrls'', JList urls),
                        (''partSize'', JInt part_size)])
           \<and> length urls = nat (math_ceil v)
           \<and> (\<forall>i < length urls. \<exists>url.
                 urls ! i = JObj [(''partNumber'', JInt (int i + 1)), (''presignedUrl'', JStr url)])"
proof -
  from assms obtain r where r: "create_multipart_upload s3 bucket_name key file_type = Inr r"
    by (cases "create_multipart_upload s3 bucket_name key file_type")
      (simp_all add: multipart_upload_def)
  from assms r obtain upload_id where u: "map_of r ''UploadId'' = Some upload_id"
    by (cases "map_of r ''UploadId''") (simp_all add: multipart_upload_def)
  from assms r u obtain v where v: "py_truediv n part_size = Inr v"
    by (cases "py_truediv n part_size") (simp_all add: multipart_upload_def)
  let ?calls = "[CreateMultipartUpload bucket_name key file_type]"
  obtain res calls' where p:
    "presign_parts s3 bucket_name key upload_id [1..math_ceil v] [] ?calls = (res, calls')"
    by (cases "presign_parts s3 bucket_name key upload_id [1..math_ceil v] [] ?calls")
  from assms r u v p obtain urls where res: "res = Inr urls"
    by (cases res) (simp_all add: multipart_upload_def)
  from presign_parts_result [OF p [unfolded res]] obtain new where new:
    "urls = [] @ new" "length new = length [1..math_ceil v]"
    "\<forall>i < length [1..math_ceil v]. \<exists>url.
       new ! i = JObj [(''partNumber'', JInt ([1..math_ceil v] ! i)), (''presignedUrl'', JStr url)]"
    by blast
  have "resp = json_response 200
                 (JObj [(''uploadType'', JStr ''multipart''),
                        (''uploadId'', JStr upload_id),
                        (''key'', JStr key),
                        (''presignedUrls'', JList urls),
                        (''partSize'', JInt part_size)])"
    using assms r u v p res by (simp add: multipart_upload_def)
  moreover have "length urls = nat (math_ceil v)"
    using new(1,2) by simp
  moreover have "\<forall>i < length urls. \<exists>url.
      urls ! i = JObj [(''partNumber'', JInt (int i + 1)), (''presignedUrl'', JStr url)]"
    using new by (simp add: add.commute)
  ultimately show ?thesis using v by blast
qed

lemma multipart_upload_cooperating:
  assumes "create_multipart_upload s3 bucket_name key file_type = Inr r"
    and "map_of r ''UploadId'' = Some upload_id"
    and "py_truediv n part_size = Inr v"
    and "\<forall>p. generate_presigned_url s3 ''upload_part''
              (UploadPartParams bucket_name key p upload_id) 3600 = Inr (url p)"
  shows "multipart_upload s3 bucket_name key file_type (Some n) =
     (Inr (json_response 200
        (JObj [(''uploadType'', JStr ''multipart''),
               (''uploadId'', JStr upload_id),
               (''key'', JStr key),
               (''presignedUrls'',
                JList (map (\<lambda>p. JObj [(''partNumber'', JInt p), (''presignedUrl'', JStr (url p))])
                         [1..math_ceil v])),
               (''partSize'', JInt part_size)])),
      CreateMultipartUpload bucket_name key file_type #
        map (\<lambda>p. GeneratePresignedUrl ''upload_part''
                    (UploadPartParams bucket_name key p upload_id) 3600) [1..math_ceil v])"
  using assms(1-3)
  by (simp add: multipart_upload_def Let_def presign_parts_cooperating [OF assms(4)])

lemma multipart_upload_status:
  "multipart_upload s3 bucket_name key file_type file_size = (Inr resp, calls) \<Longrightarrow> statusCode resp = 200"
  by (auto simp: multipart_upload_def json_response_def Let_def
      split: sum.splits option.splits prod.splits)

text \<open>
  One byte above 10 PiB the exact quotient is \<open>2\<^sup>3\<^sup>0 + 1 / 10485760\<close>; the nearest
  double is \<open>2\<^sup>3\<^sup>0\<close>.
\<close>

lemma py_truediv_failing_size: "py_truediv 11258999068426241 part_size = Inr 1073741824"
proof -
  let ?q = "11258999068426241 / 10485760 :: rat"
  have fl: "floor_log2 ?q = 30"
    by (rule floor_log2_unique) simp_all
  have "round_to_double ?q =
      Some (of_int (round_half_even (?q * 2 powi (52 - floor_log2 ?q))) * 2 powi (floor_log2 ?q - 52))"
    by (rule round_to_double_error(1)) (simp_all add: fl)
  moreover have "\<lfloor>22517998136852482 / 5 :: rat\<rfloor> = 4503599627370496"
    by (rule floor_unique) simp_all
  then have "round_half_even (22517998136852482 / 5) = 4503599627370496"
    by (simp add: round_half_even_def)
  ultimately have "round_to_double ?q = Some 1073741824"
    by (simp add: fl power_int_minus_divide)
  then show ?thesis
    by (simp add: py_truediv_def part_size_def)
qed

text \<open>The handler around the multipart branch.\<close>

lemma plan_handler_valid:
  assumes "httpMethod ev \<noteq> Some ''OPTIONS''" "parsed_body ev = Inr req"
    "body_fileName req = Some file_name" "file_name \<noteq> []"
    "body_fileType req = Some file_type" "file_type \<noteq> []"
    "map_of env ''UPLOAD_BUCKET_NAME'' = Some bucket_name"
    "object_key ctx file_name = Inr key"
    "is_large_file (body_fileSize req)"
    "multipart_upload s3 bucket_name key file_type (body_fileSize req) = (Inr resp, calls)"
  shows "presigned_url_lambda_handler s3 env ev ctx =
           \<lparr>returned = resp, s3_calls = calls, printed = []\<rparr>"
  using assms(1,7-10)
  by (simp add: presigned_url_lambda_handler_def plan_try_valid [OF assms(2-6)])

lemma plan_status_200:
  assumes "httpMethod ev \<noteq> Some ''OPTIONS''" "parsed_body ev = Inr req"
    "body_fileName req = Some file_name" "file_name \<noteq> []"
    "body_fileType req = Some file_type" "file_type \<noteq> []"
    "is_large_file (body_fileSize req)"
    "statusCode (returned (presigned_url_lambda_handler s3 env ev ctx)) = 200"
  shows "\<exists>bucket_name key calls.
           object_key ctx file_name = Inr key
           \<and> multipart_upload s3 bucket_name key file_type (body_fileSize req) =
               (Inr (returned (presigned_url_lambda_handler s3 env ev ctx)), calls)"
  using assms(1,7,8)
  by (auto simp: presigned_url_lambda_handler_def plan_try_valid [OF assms(2-6)]
      error_response_def json_response_def split: option.splits sum.splits prod.splits if_splits)

text \<open>
  For a valid request with \<open>fileSize\<close> above 100 MiB and at most 10 PiB, a plan that
  succeeds has the fixed part size of 10 MiB and exactly \<open>\<lceil>fileSize / partSize\<rceil>\<close>
  authorizations, the \<open>i\<close>-th (from 0) with part number \<open>i + 1\<close>.
\<close>

lemma plan_part_count:
  assumes "httpMethod ev \<noteq> Some ''OPTIONS''" "parsed_body ev = Inr req"
    "body_fileName req = Some file_name" "file_name \<noteq> []"
    "body_fileType req = Some file_type" "file_type \<noteq> []"
    "body_fileSize req = Some n" "100 * 1024 * 1024 < n" "n \<le> 10 * 2 ^ 50"
    "statusCode (returned (presigned_url_lambda_handler s3 env ev ctx)) = 200"
  shows "\<exists>upload_id key urls.
           returned (presigned_url_lambda_handler s3 env ev ctx) =
             json_response 200
               (JObj [(''uploadType'', JStr ''multipart''),
                      (''uploadId'', JStr upload_id),
                      (''key'', JStr key),
                      (''presignedUrls'', JList urls),
                      (''partSize'', JInt (10 * 1024 * 1024))])
           \<and> int (length urls) = \<lceil>(of_int n / of_int part_size :: rat)\<rceil>
           \<and> (\<forall>i < length urls. \<exists>url.
                 urls ! i = JObj [(''partNumber'', JInt (int i + 1)), (''presignedUrl'', JStr url)])"
proof -
  have large: "is_large_file (body_fileSize req)"
    using assms(7,8) by (simp add: is_large_file_def)
  from plan_status_200 [OF assms(1-6) large assms(10)] assms(7)
  obtain bucket_name key calls where
    m: "multipart_upload s3 bucket_name key file_type (Some n) =
          (Inr (returned (presigned_url_lambda_handler s3 env ev ctx)), calls)"
    by auto
  from multipart_upload_result [OF m] obtain upload_id v urls where r:
    "py_truediv n part_size = Inr v"
    "returned (presigned_url_lambda_handler s3 env ev ctx) =
       json_response 200
         (JObj [(''uploadType'', JStr ''multipart''),
                (''uploadId'', JStr upload_id),
                (''key'', JStr key),
                (''presignedUrls'', JList urls),
                (''partSize'', JInt part_size)])"
    "length urls = nat (math_ceil v)"
    "\<forall>i < length urls. \<exists>url.
       urls ! i = JObj [(''partNumber'', JInt (int i + 1)), (''presignedUrl'', JStr url)]"
    by blast
  from py_truediv_part_size [of n] assms(8,9) r(1)
  have c: "math_ceil v = \<lceil>(of_int n / of_int part_size :: rat)\<rceil>"
    by auto
  have "0 < (of_int n / of_int part_size :: rat)"
    using assms(8) by (simp add: part_size_def)
  then have "0 < \<lceil>(of_int n / of_int part_size :: rat)\<rceil>"
    by (simp only: zero_less_ceiling)
  with r(3) c have "int (length urls) = \<lceil>(of_int n / of_int part_size :: rat)\<rceil>"
    by simp
  with r(2,4) show ?thesis
    by (auto simp: part_size_def)
qed

text \<open>The planner run against the accepting store.\<close>

lemma accepting_store_multipart:
  assumes "py_truediv n part_size = Inr v"
  shows "presigned_url_lambda_handler accepting_store example_env
           (upload_event (Some file_name) (Some file_type) (Some n)) example_context =
         (if file_name = [] \<or> file_type = [] then
            \<lparr>returned = error_response 400 ''fileName and fileType are required'',
             s3_calls = [], printed = []\<rparr>
          else if is_large_file (Some n) then
            \<lparr>returned = json_response 200
               (JObj [(''uploadType'', JStr ''multipart''),
                      (''uploadId'', JStr ''session-1''),
                      (''key'', JStr (''uploads/2403084827-'' @ file_name)),
                      (''presignedUrls'',
                       JList (map (\<lambda>p. JObj [(''partNumber'', JInt p),
                                             (''presignedUrl'', JStr ''https://signed.example'')])
                                [1..math_ceil v])),
                      (''partSize'', JInt part_size)]),
             s3_calls =
               CreateMultipartUpload ''upload-bucket'' (''uploads/2403084827-'' @ file_name) file_type #
               map (\<lambda>p. GeneratePresignedUrl ''upload_part''
                       (UploadPartParams ''upload-bucket'' (''uploads/2403084827-'' @ file_name) p
                          ''session-1'') 3600)
                 [1..math_ceil v],
             printed = []\<rparr>
          else
            \<lparr>returned = json_response 200
               (JObj [(''uploadType'', JStr ''single''),
                      (''presignedUrl'', JStr ''https://signed.example''),
                      (''key'', JStr (''uploads/2403084827-'' @ file_name))]),
             s3_calls = [GeneratePresignedUrl ''put_object''
                           (PutObjectParams ''upload-bucket'' (''uploads/2403084827-'' @ file_name)
                              file_type) 3600],
             printed = []\<rparr>)"
proof -
  have m: "multipart_upload accepting_store bucket_name key file_type (Some n) =
     (Inr (json_response 200
        (JObj [(''uploadType'', JStr ''multipart''),
               (''uploadId'', JStr ''session-1''),
               (''key'', JStr key),
               (''presignedUrls'',
                JList (map (\<lambda>p. JObj [(''partNumber'', JInt p),
                                      (''presignedUrl'', JStr ''https://signed.example'')])
                         [1..math_ceil v])),
               (''partSize'', JInt part_size)])),
      CreateMultipartUpload bucket_name key file_type #
        map (\<lambda>p. GeneratePresignedUrl ''upload_part''
                    (UploadPartParams bucket_name key p ''session-1'') 3600) [1..math_ceil v])"
    for bucket_name key
  proof -
    have c: "create_multipart_upload accepting_store bucket_name key file_type =
        Inr [(''UploadId'', ''session-1'')]"
      by (simp add: accepting_store_def)
    have u: "map_of [(''UploadId'', ''session-1'')] ''UploadId'' = Some ''session-1''"
      by simp
    have g: "\<forall>p. generate_presigned_url accepting_store ''upload_part''
        (UploadPartParams bucket_name key p ''session-1'') 3600 =
        Inr ((\<lambda>p. ''https://signed.example'') p)"
      by (simp add: accepting_store_def)
    show ?thesis
      using multipart_upload_cooperating [OF c u assms g] by simp
  qed
  show ?thesis
    by (simp add: presigned_url_lambda_handler_def presigned_url_try_def upload_event_def
        truthy_str_def example_env_def object_key_example m single_upload_def)
      (simp add: accepting_store_def)
qed

text \<open>
  Claim C1. The claim asks for exactly \<open>\<lceil>fileSize / partSize\<rceil>\<close> authorizations for every
  \<open>fileSize\<close> above the threshold. The handler computes the count with a float division,
  and for \<open>fileSize = 11258999068426241\<close> (10 PiB + 1) it returns 1073741824
  authorizations where the ceiling is 1073741825. (Up to 10 PiB the count is exact:
  \<open>plan_part_count\<close>.)
\<close>

theorem plan_part_count_float_rounding:
  "\<exists>urls.
     returned (presigned_url_lambda_handler accepting_store example_env
        (upload_event (Some ''archive.bin'') (Some ''application/octet-stream'')
           (Some 11258999068426241))
        example_context) =
       json_response 200
         (JObj [(''uploadType'', JStr ''multipart''),
                (''uploadId'', JStr ''session-1''),
                (''key'', JStr ''uploads/2403084827-archive.bin''),
                (''presignedUrls'', JList urls),
                (''partSize'', JInt (10 * 1024 * 1024))])
     \<and> int (length urls) = 1073741824
     \<and> \<lceil>(of_int 11258999068426241 / of_int part_size :: rat)\<rceil> = 1073741825"
proof -
  have c: "\<lceil>(of_int 11258999068426241 / of_int part_size :: rat)\<rceil> = 1073741825"
    unfolding ceiling_divide_eq_div by (simp add: part_size_def)
  show ?thesis
    unfolding accepting_store_multipart [OF py_truediv_failing_size] c
    by (intro exI [of _ "map (\<lambda>p. JObj [(''partNumber'', JInt p),
                                         (''presignedUrl'', JStr ''https://signed.example'')])
                            [1..1073741824]"])
      (simp add: is_large_file_def math_ceil_def part_size_def)
qed

text \<open>
  Claim C2, as amended. The planner does not check the size of the last part. For every
  valid request with \<open>fileSize\<close> above 100 MiB, whatever the remainder of \<open>fileSize\<close> by
  the part size (a last part under 5 MiB, or none at all when the division is exact), the
  result is never the 400 of an invalid request; and for \<open>fileSize\<close> up to 10 PiB, with
  the bucket configured, the key derived and a store that initiates the session and signs
  every part, the plan succeeds in multipart mode with \<open>\<lceil>fileSize / partSize\<rceil>\<close>
  authorizations.
\<close>

theorem plan_ignores_last_part_size:
  assumes "httpMethod ev \<noteq> Some ''OPTIONS''" "parsed_body ev = Inr req"
    "body_fileName req = Some file_name" "file_name \<noteq> []"
    "body_fileType req = Some file_type" "file_type \<noteq> []"
    "body_fileSize req = Some n" "100 * 1024 * 1024 < n"
  shows "statusCode (returned (presigned_url_lambda_handler s3 env ev ctx)) \<noteq> 400
    \<and> (\<forall>bucket_name key r upload_id.
          n \<le> 10 * 2 ^ 50
          \<and> map_of env ''UPLOAD_BUCKET_NAME'' = Some bucket_name
          \<and> object_key ctx file_name = Inr key
          \<and> create_multipart_upload s3 bucket_name key file_type = Inr r
          \<and> map_of r ''UploadId'' = Some upload_id
          \<and> (\<forall>p. \<exists>url. generate_presigned_url s3 ''upload_part''
                       (UploadPartParams bucket_name key p upload_id) 3600 = Inr url)
        \<longrightarrow> (\<exists>urls.
               returned (presigned_url_lambda_handler s3 env ev ctx) =
                 json_response 200
                   (JObj [(''uploadType'', JStr ''multipart''),
                          (''uploadId'', JStr upload_id),
                          (''key'', JStr key),
                          (''presignedUrls'', JList urls),
                          (''partSize'', JInt (10 * 1024 * 1024))])
               \<and> int (length urls) = \<lceil>(of_int n / of_int part_size :: rat)\<rceil>))"
proof (intro conjI allI impI)
  have large: "is_large_file (body_fileSize req)"
    using assms(7,8) by (simp add: is_large_file_def)
  show "statusCode (returned (presigned_url_lambda_handler s3 env ev ctx)) \<noteq> 400"
    using assms(1) large
    by (auto simp: presigned_url_lambda_handler_def plan_try_valid [OF assms(2-6)]
        error_response_def json_response_def
        split: option.splits sum.splits prod.splits dest: multipart_upload_status)
  fix bucket_name key r upload_id
  assume h: "n \<le> 10 * 2 ^ 50
          \<and> map_of env ''UPLOAD_BUCKET_NAME'' = Some bucket_name
          \<and> object_key ctx file_name = Inr key
          \<and> create_multipart_upload s3 bucket_name key file_type = Inr r
          \<and> map_of r ''UploadId'' = Some upload_id
          \<and> (\<forall>p. \<exists>url. generate_presigned_url s3 ''upload_part''
                       (UploadPartParams bucket_name key p upload_id) 3600 = Inr url)"
  then obtain url where url:
    "\<forall>p. generate_presigned_url s3 ''upload_part''
           (UploadPartParams bucket_name key p upload_id) 3600 = Inr (url p)"
    by metis
  from py_truediv_part_size [of n] assms(8) h obtain v where
    v: "py_truediv n part_size = Inr v"
       "math_ceil v = \<lceil>(of_int n / of_int part_size :: rat)\<rceil>"
    by auto
  have "0 < (of_int n / of_int part_size :: rat)"
    using assms(8) by (simp add: part_size_def)
  then have pos: "0 < \<lceil>(of_int n / of_int part_size :: rat)\<rceil>"
    by (simp only: zero_less_ceiling)
  let ?urls = "map (\<lambda>p. JObj [(''partNumber'', JInt p), (''presignedUrl'', JStr (url p))])
                 [1..math_ceil v]"
  from h have c: "create_multipart_upload s3 bucket_name key file_type = Inr r"
    and u: "map_of r ''UploadId'' = Some upload_id"
    by simp_all
  from multipart_upload_cooperating [OF c u v(1) url]
  have "\<exists>calls. multipart_upload s3 bucket_name key file_type (body_fileSize req) =
     (Inr (json_response 200
        (JObj [(''uploadType'', JStr ''multipart''),
               (''uploadId'', JStr upload_id),
               (''key'', JStr key),
               (''presignedUrls'', JList ?urls),
               (''partSize'', JInt part_size)])), calls)"
    by (simp add: assms(7))
  then obtain calls where m:
    "multipart_upload s3 bucket_name key file_type (body_fileSize req) =
     (Inr (json_response 200
        (JObj [(''uploadType'', JStr ''multipart''),
               (''uploadId'', JStr upload_id),
               (''key'', JStr key),
               (''presignedUrls'', JList ?urls),
               (''partSize'', JInt part_size)])), calls)"
    by blast
  from plan_handler_valid [OF assms(1-6) _ _ large m] h
  have "returned (presigned_url_lambda_handler s3 env ev ctx) =
      json_response 200
        (JObj [(''uploadType'', JStr ''multipart''),
               (''uploadId'', JStr upload_id),
               (''key'', JStr key),
               (''presignedUrls'', JList ?urls),
               (''partSize'', JInt (10 * 1024 * 1024))])"
    by (simp add: part_size_def)
  moreover have "int (length ?urls) = \<lceil>(of_int n / of_int part_size :: rat)\<rceil>"
    using pos v(2) by simp
  ultimately show "\<exists>urls.
               returned (presigned_url_lambda_handler s3 env ev ctx) =
                 json_response 200
                   (JObj [(''uploadType'', JStr ''multipart''),
                          (''uploadId'', JStr upload_id),
                          (''key'', JStr key),
                          (''presignedUrls'', JList urls),
                          (''partSize'', JInt (10 * 1024 * 1024))])
               \<and> int (length urls) = \<lceil>(of_int n / of_int part_size :: rat)\<rceil>"
    by blast
qed

theorem plan_ignores_last_part_size_witness:
  "statusCode (returned (presigned_url_lambda_handler accepting_store example_env
      (upload_event (Some ''video.mp4'') (Some ''video/mp4'') (Some 109051904))
      example_context)) \<noteq> 400
   \<and> (\<exists>urls.
         returned (presigned_url_lambda_handler accepting_store example_env
            (upload_event (Some ''video.mp4'') (Some ''video/mp4'') (Some 109051904))
            example_context) =
           json_response 200
             (JObj [(''uploadType'', JStr ''multipart''),
                    (''uploadId'', JStr ''session-1''),
                    (''key'', JStr ''uploads/2403084827-video.mp4''),
                    (''presignedUrls'', JList urls),
                    (''partSize'', JInt (10 * 1024 * 1024))])
         \<and> int (length urls) = 11)"
proof -
  let ?ev = "upload_event (Some ''video.mp4'') (Some ''video/mp4'') (Some 109051904)"
  let ?req = "\<lparr>body_fileName = Some ''video.mp4'', body_fileType = Some ''video/mp4'',
               body_fileSize = Some 109051904\<rparr>"
  have c: "\<lceil>(of_int 109051904 / of_int part_size :: rat)\<rceil> = 11"
    unfolding ceiling_divide_eq_div by (simp add: part_size_def)
  have t: "statusCode (returned (presigned_url_lambda_handler accepting_store example_env ?ev
              example_context)) \<noteq> 400
    \<and> (\<forall>bucket_name key r upload_id.
          (109051904::int) \<le> 10 * 2 ^ 50
          \<and> map_of example_env ''UPLOAD_BUCKET_NAME'' = Some bucket_name
          \<and> object_key example_context ''video.mp4'' = Inr key
          \<and> create_multipart_upload accepting_store bucket_name key ''video/mp4'' = Inr r
          \<and> map_of r ''UploadId'' = Some upload_id
          \<and> (\<forall>p. \<exists>url. generate_presigned_url accepting_store ''upload_part''
                       (UploadPartParams bucket_name key p upload_id) 3600 = Inr url)
        \<longrightarrow> (\<exists>urls.
               returned (presigned_url_lambda_handler accepting_store example_env ?ev
                  example_context) =
                 json_response 200
                   (JObj [(''uploadType'', JStr ''multipart''),
                          (''uploadId'', JStr upload_id),
                          (''key'', JStr key),
                          (''presignedUrls'', JList urls),
                          (''partSize'', JInt (10 * 1024 * 1024))])
               \<and> int (length urls) = \<lceil>(of_int 109051904 / of_int part_size :: rat)\<rceil>))"
    by (rule plan_ignores_last_part_size [of ?ev ?req "''video.mp4''" "''video/mp4''"])
      (simp_all add: upload_event_def)
  then have "\<exists>urls.
       returned (presigned_url_lambda_handler accepting_store example_env ?ev example_context) =
         json_response 200
           (JObj [(''uploadType'', JStr ''multipart''),
                  (''uploadId'', JStr ''session-1''),
                  (''key'', JStr ''uploads/2403084827-video.mp4''),
                  (''presignedUrls'', JList urls),
                  (''partSize'', JInt (10 * 1024 * 1024))])
       \<and> int (length urls) = \<lceil>(of_int 109051904 / of_int part_size :: rat)\<rceil>"
    by (elim conjE allE [of _ "''upload-bucket''"] allE [of _ "''uploads/2403084827-video.mp4''"]
        allE [of _ "[(''UploadId'', ''session-1'')]"] allE [of _ "''session-1''"] impE)
      (simp_all add: example_env_def object_key_example accepting_store_def)
  with t show ?thesis
    unfolding c by blast
qed

text \<open>
  The claim as stated wants \<open>fileSize\<close> = 104 MiB refused, its last part being 4 MiB.
  The planner answers 200 after twelve calls: the initiation and eleven signings.
\<close>

theorem plan_undersized_last_part_counterexample:
  "109051904 mod part_size = 4 * 1024 * 1024
   \<and> statusCode (returned (presigned_url_lambda_handler accepting_store example_env
        (upload_event (Some ''video.mp4'') (Some ''video/mp4'') (Some 109051904))
        example_context)) = 200
   \<and> length (s3_calls (presigned_url_lambda_handler accepting_store example_env
        (upload_event (Some ''video.mp4'') (Some ''video/mp4'') (Some 109051904))
        example_context)) = 12"
proof -
  from py_truediv_part_size [of 109051904] obtain v where
    v: "py_truediv 109051904 part_size = Inr v"
       "math_ceil v = \<lceil>(of_int 109051904 / of_int part_size :: rat)\<rceil>"
    by auto
  have "\<lceil>(of_int 109051904 / of_int part_size :: rat)\<rceil> = 11"
    unfolding ceiling_divide_eq_div by (simp add: part_size_def)
  with v(2) have c: "math_ceil v = 11" by simp
  show ?thesis
    unfolding accepting_store_multipart [OF v(1)] c
    by (simp add: is_large_file_def part_size_def json_response_def)
qed

end
